theory Spec2Isabelle
  imports Complex_Main "HOL-Library.Sublist"
begin

section \<open>Python values\<close>

text \<open>
  Environment variables, JSON fields read with \<^verbatim>\<open>.get\<close> and the values of the
  snapshot dictionaries are strings or \<^verbatim>\<open>None\<close>: a \<open>string option\<close>. A Python
  \<^verbatim>\<open>str\<close> is kept as its UTF-8 bytes; the Korean words and the emoji of the
  message templates are written byte by byte. \<open>truthy\<close> is Python's truth value of such a
  value: \<^verbatim>\<open>None\<close> and the empty string are false.
\<close>

definition truthy :: "string option \<Rightarrow> bool" where
  "truthy v = (case v of None \<Rightarrow> False | Some s \<Rightarrow> s \<noteq> [])"

text \<open>What an f-string prints for such a value.\<close>

definition py_str :: "string option \<Rightarrow> string" where
  "py_str v = (case v of None \<Rightarrow> ''None'' | Some s \<Rightarrow> s)"

text \<open>
  Item assignment \<^verbatim>\<open>d[k] = v\<close> on a dictionary, which keeps insertion order: an
  existing key keeps its place, a new key goes last.
\<close>

fun dict_set :: "'k \<Rightarrow> 'v \<Rightarrow> ('k \<times> 'v) list \<Rightarrow> ('k \<times> 'v) list" where
  "dict_set k v [] = [(k, v)]"
| "dict_set k v ((k', v') # kvs) =
     (if k' = k then (k, v) # kvs else (k', v') # dict_set k v kvs)"

section \<open>The indicator table\<close>

record indicator_info =
  name :: string
  unit :: string
  importance :: string
  description :: string

text \<open>The display names, units and descriptions of \<^verbatim>\<open>ECONOMIC_INDICATORS\<close>.\<close>

definition name_UNRATE :: string where
  "name_UNRATE =
     [CHR 0xEC, CHR 0x8B, CHR 0xA4, CHR 0xEC, CHR 0x97, CHR 0x85, CHR 0xEB, CHR 0xA5,
       CHR 0xA0]"

definition description_UNRATE :: string where
  "description_UNRATE =
     [CHR 0xEB, CHR 0xAF, CHR 0xB8, CHR 0xEA, CHR 0xB5, CHR 0xAD] @ '' '' @ [CHR 0xEC,
       CHR 0x8B, CHR 0xA4, CHR 0xEC, CHR 0x97, CHR 0x85, CHR 0xEB, CHR 0xA5, CHR 0xA0]"

definition name_CPIAUCSL :: string where
  "name_CPIAUCSL =
     ''CPI ('' @ [CHR 0xEC, CHR 0x86, CHR 0x8C, CHR 0xEB, CHR 0xB9, CHR 0x84, CHR 0xEC,
       CHR 0x9E, CHR 0x90, CHR 0xEB, CHR 0xAC, CHR 0xBC, CHR 0xEA, CHR 0xB0, CHR 0x80,
       CHR 0xEC, CHR 0xA7, CHR 0x80, CHR 0xEC, CHR 0x88, CHR 0x98] @ '')''"

definition description_CPIAUCSL :: string where
  "description_CPIAUCSL =
     [CHR 0xEC, CHR 0xA0, CHR 0x84, CHR 0xEB, CHR 0x85, CHR 0x84, CHR 0xEB, CHR 0x8F,
       CHR 0x99, CHR 0xEC, CHR 0x9B, CHR 0x94, CHR 0xEB, CHR 0x8C, CHR 0x80, CHR 0xEB,
       CHR 0xB9, CHR 0x84] @ '' '' @ [CHR 0xEC, CHR 0x9D, CHR 0xB8, CHR 0xED, CHR 0x94,
       CHR 0x8C, CHR 0xEB, CHR 0xA0, CHR 0x88, CHR 0xEC, CHR 0x9D, CHR 0xB4, CHR 0xEC,
       CHR 0x85, CHR 0x98, CHR 0xEC, CHR 0x9C, CHR 0xA8]"

definition name_PAYEMS :: string where
  "name_PAYEMS =
     [CHR 0xEB, CHR 0xB9, CHR 0x84, CHR 0xEB, CHR 0x86, CHR 0x8D, CHR 0xEC, CHR 0x97,
       CHR 0x85] @ '' '' @ [CHR 0xEC, CHR 0xB7, CHR 0xA8, CHR 0xEC, CHR 0x97, CHR 0x85,
       CHR 0xEC, CHR 0x9E, CHR 0x90] @ '' '' @ [CHR 0xEC, CHR 0x88, CHR 0x98]"

definition unit_PAYEMS :: string where
  "unit_PAYEMS =
     [CHR 0xEC, CHR 0xB2, CHR 0x9C, CHR 0xEB, CHR 0xAA, CHR 0x85]"

definition description_PAYEMS :: string where
  "description_PAYEMS =
     [CHR 0xEC, CHR 0x9B, CHR 0x94, CHR 0xEA, CHR 0xB0, CHR 0x84] @ '' '' @ [CHR 0xEA,
       CHR 0xB3, CHR 0xA0, CHR 0xEC, CHR 0x9A, CHR 0xA9] @ '' '' @ [CHR 0xEC, CHR 0xA6,
       CHR 0x9D, CHR 0xEA, CHR 0xB0, CHR 0x80]"

definition description_GDPC1 :: string where
  "description_GDPC1 =
     [CHR 0xEB, CHR 0xB6, CHR 0x84, CHR 0xEA, CHR 0xB8, CHR 0xB0, CHR 0xEB, CHR 0xB3,
       CHR 0x84] @ '' '' @ [CHR 0xEA, CHR 0xB2, CHR 0xBD, CHR 0xEC, CHR 0xA0, CHR 0x9C,
       CHR 0xEC, CHR 0x84, CHR 0xB1, CHR 0xEC, CHR 0x9E, CHR 0xA5, CHR 0xEB, CHR 0xA5,
       CHR 0xA0]"

definition name_RRSFS :: string where
  "name_RRSFS =
     [CHR 0xEC, CHR 0x86, CHR 0x8C, CHR 0xEB, CHR 0xA7, CHR 0xA4, CHR 0xED, CHR 0x8C,
       CHR 0x90, CHR 0xEB, CHR 0xA7, CHR 0xA4]"

definition description_RRSFS :: string where
  "description_RRSFS =
     [CHR 0xEC, CHR 0x9B, CHR 0x94, CHR 0xEA, CHR 0xB0, CHR 0x84] @ '' '' @ [CHR 0xEC,
       CHR 0x86, CHR 0x8C, CHR 0xEB, CHR 0xA7, CHR 0xA4, CHR 0xED, CHR 0x8C, CHR 0x90,
       CHR 0xEB, CHR 0xA7, CHR 0xA4] @ '' '' @ [CHR 0xEC, CHR 0xA6, CHR 0x9D, CHR 0xEA,
       CHR 0xB0, CHR 0x90, CHR 0xEB, CHR 0xA5, CHR 0xA0]"

definition ECONOMIC_INDICATORS :: "(string \<times> indicator_info) list" where
  "ECONOMIC_INDICATORS =
     [(''UNRATE'', \<lparr>name = name_UNRATE, unit = ''%'', importance = ''critical'',
          description = description_UNRATE\<rparr>),
      (''CPIAUCSL'', \<lparr>name = name_CPIAUCSL, unit = ''%'', importance = ''critical'',
          description = description_CPIAUCSL\<rparr>),
      (''PAYEMS'', \<lparr>name = name_PAYEMS, unit = unit_PAYEMS, importance = ''critical'',
          description = description_PAYEMS\<rparr>),
      (''GDPC1'', \<lparr>name = ''GDP'', unit = ''%'', importance = ''important'',
          description = description_GDPC1\<rparr>),
      (''RRSFS'', \<lparr>name = name_RRSFS, unit = ''%'', importance = ''important'',
          description = description_RRSFS\<rparr>)]"

section \<open>Civil time\<close>

text \<open>
  \<^verbatim>\<open>get_korean_time()\<close> returns a \<^verbatim>\<open>datetime\<close> in the fixed zone UTC+9. The
  record holds its civil fields; the weekday is computed from the date the way the
  \<^verbatim>\<open>datetime\<close> module does it (\<^verbatim>\<open>(toordinal() + 6) % 7\<close>, Monday is 0).
\<close>

record datetime =
  year :: int
  month :: int
  day :: int
  hour :: int
  minute :: int
  second :: int

definition is_leap :: "int \<Rightarrow> bool" where
  "is_leap y = (y mod 4 = 0 \<and> (y mod 100 \<noteq> 0 \<or> y mod 400 = 0))"

definition days_before_year :: "int \<Rightarrow> int" where
  "days_before_year y =
     (y - 1) * 365 + (y - 1) div 4 - (y - 1) div 100 + (y - 1) div 400"

definition DAYS_IN_MONTH :: "int list" where
  "DAYS_IN_MONTH = [-1, 31, 28, 31, 30, 31, 30, 31, 31, 30, 31, 30, 31]"

definition DAYS_BEFORE_MONTH :: "int list" where
  "DAYS_BEFORE_MONTH = [-1, 0, 31, 59, 90, 120, 151, 181, 212, 243, 273, 304, 334]"

definition days_in_month :: "int \<Rightarrow> int \<Rightarrow> int" where
  "days_in_month y m = (if m = 2 \<and> is_leap y then 29 else DAYS_IN_MONTH ! nat m)"

definition days_before_month :: "int \<Rightarrow> int \<Rightarrow> int" where
  "days_before_month y m =
     DAYS_BEFORE_MONTH ! nat m + (if 2 < m \<and> is_leap y then 1 else 0)"

definition toordinal :: "datetime \<Rightarrow> int" where
  "toordinal t = days_before_year (year t) + days_before_month (year t) (month t) + day t"

definition weekday :: "datetime \<Rightarrow> int" where
  "weekday t = (toordinal t + 6) mod 7"

text \<open>Decimal digits, for \<^verbatim>\<open>strftime\<close>.\<close>

definition digit_char :: "nat \<Rightarrow> char" where
  "digit_char n = ''0123456789'' ! n"

fun decimal :: "nat \<Rightarrow> string" where
  "decimal n = (if n < 10 then [digit_char n] else decimal (n div 10) @ [digit_char (n mod 10)])"

text \<open>The two-digit fields \<^verbatim>\<open>%m %d %H %M %S\<close> and the year \<^verbatim>\<open>%Y\<close>.\<close>

definition pad2 :: "int \<Rightarrow> string" where
  "pad2 n = (if n < 10 then ''0'' @ decimal (nat n) else decimal (nat n))"

definition strftime_Y :: "datetime \<Rightarrow> string" where
  "strftime_Y t = decimal (nat (year t))"

section \<open>The world of one run\<close>

text \<open>
  Everything a call reads from outside: the three environment variables, the clock and
  the answers of the two HTTP services. An HTTP call either returns a response with a
  status code and a body, or raises (network failure, timeout). The body of an answer of
  the statistics provider is read by \<^verbatim>\<open>response.json()\<close> and
  \<^verbatim>\<open>data.get('observations', [])\<close>: \<open>Body_Error\<close> is a body on which one of the
  two raises, \<open>Body_Observations None\<close> a JSON object without that key. A call reads the
  clock more than once (\<^verbatim>\<open>should_send_briefing\<close> twice); all the readings of one
  call are the one instant \<open>now\<close>. Observations are JSON objects whose values and dates
  are strings or absent, as the provider sends them.
\<close>

record observation =
  obs_value :: "string option"
  obs_date :: "string option"

datatype fred_body = Body_Error | Body_Observations "observation list option"

datatype 'b http_result = Http_Response int 'b | Http_Exception

record world =
  FRED_API_KEY :: "string option"
  BOT_TOKEN :: "string option"
  CHAT_ID :: "string option"
  now :: datetime
  fred_reply :: "string \<Rightarrow> fred_body http_result"
  telegram_reply :: "string \<Rightarrow> string http_result"

text \<open>
  The HTTP requests a call issues, in order: a GET for a series, a POST of a message text.
  Every function that talks to a service returns its result together with these. Lines
  printed to the log are not part of the model.
\<close>

datatype effect = Fred_Get string | Telegram_Post string

definition get_korean_time :: "world \<Rightarrow> datetime" where
  "get_korean_time w = now w"

section \<open>Clock gate\<close>

definition is_business_day :: "world \<Rightarrow> bool" where
  "is_business_day w = (let korean_time = get_korean_time w in weekday korean_time < 5)"

definition should_send_briefing :: "world \<Rightarrow> bool" where
  "should_send_briefing w =
     (if \<not> is_business_day w then False
      else let korean_time = get_korean_time w in
        if hour korean_time = 7 \<and> minute korean_time = 30 then True else False)"

section \<open>Indicator fetcher\<close>

definition get_fred_data :: "world \<Rightarrow> string \<Rightarrow> observation list \<times> effect list" where
  "get_fred_data w series_id =
     (case fred_reply w series_id of
        Http_Response status_code body \<Rightarrow>
          if status_code = 200 then
            (case body of
               Body_Observations (Some observations) \<Rightarrow> observations
             | Body_Observations None \<Rightarrow> []
             | Body_Error \<Rightarrow> [])
          else []
      | Http_Exception \<Rightarrow> [],
      [Fred_Get series_id])"

record snapshot =
  info :: indicator_info
  latest_value :: "string option"
  latest_date :: "string option"
  previous_value :: "string option"
  previous_date :: "string option"

type_synonym indicators = "(string \<times> snapshot) list"

text \<open>One pass of the loop body of \<^verbatim>\<open>get_latest_indicators\<close>, then the loop.\<close>

fun get_latest_indicators_loop ::
  "world \<Rightarrow> (string \<times> indicator_info) list \<Rightarrow> indicators \<times> effect list \<Rightarrow>
   indicators \<times> effect list" where
  "get_latest_indicators_loop w [] acc = acc"
| "get_latest_indicators_loop w ((series_id, ind_info) # rest) (indicators_data, effs) =
     (case get_fred_data w series_id of
        ([], e) \<Rightarrow> get_latest_indicators_loop w rest (indicators_data, effs @ e)
      | (latest # older, e) \<Rightarrow>
          let previous = (case older of [] \<Rightarrow> None | p # _ \<Rightarrow> Some p) in
          get_latest_indicators_loop w rest
            (dict_set series_id
               \<lparr>info = ind_info,
                latest_value = obs_value latest,
                latest_date = obs_date latest,
                previous_value = (case previous of None \<Rightarrow> None | Some p \<Rightarrow> obs_value p),
                previous_date = (case previous of None \<Rightarrow> None | Some p \<Rightarrow> obs_date p)\<rparr>
               indicators_data,
             effs @ e))"

definition get_latest_indicators :: "world \<Rightarrow> indicators \<times> effect list" where
  "get_latest_indicators w = get_latest_indicators_loop w ECONOMIC_INDICATORS ([], [])"

section \<open>Change calculator\<close>

text \<open>
  Python's \<^verbatim>\<open>float\<close> is not a HOL type. The functions below take its operations as
  a parameter: \<open>float_of_string\<close> is \<^verbatim>\<open>float(s)\<close> on a string, with
  \<open>None\<close> for \<^verbatim>\<open>ValueError\<close>; \<open>float_sub\<close> is the subtraction of two floats;
  \<open>float_gt0\<close> and \<open>float_lt0\<close> are the comparisons with \<^verbatim>\<open>0\<close>;
  \<open>float_fmt2\<close> is the format \<^verbatim>\<open>{:.2f}\<close>.
\<close>

record 'f float_ops =
  float_of_string :: "string \<Rightarrow> 'f option"
  float_sub :: "'f \<Rightarrow> 'f \<Rightarrow> 'f"
  float_gt0 :: "'f \<Rightarrow> bool"
  float_lt0 :: "'f \<Rightarrow> bool"
  float_fmt2 :: "'f \<Rightarrow> string"

definition calculate_change ::
  "'f float_ops \<Rightarrow> string option \<Rightarrow> string option \<Rightarrow> 'f option" where
  "calculate_change fl current previous =
     (if \<not> truthy current \<or> \<not> truthy previous \<or> current = Some ''.'' \<or> previous = Some ''.''
      then None
      else
        (case float_of_string fl (py_str current) of
           None \<Rightarrow> None
         | Some current_val \<Rightarrow>
             (case float_of_string fl (py_str previous) of
                None \<Rightarrow> None
              | Some previous_val \<Rightarrow> Some (float_sub fl current_val previous_val))))"

definition change_na :: string where
  "change_na =
     [CHR 0xF0, CHR 0x9F, CHR 0x93, CHR 0x8A] @ '' N/A''"

definition change_up :: string where
  "change_up =
     [CHR 0xF0, CHR 0x9F, CHR 0x93, CHR 0x88] @ '' +''"

definition change_down :: string where
  "change_down =
     [CHR 0xF0, CHR 0x9F, CHR 0x93, CHR 0x89] @ '' ''"

definition change_flat :: string where
  "change_flat =
     [CHR 0xE2, CHR 0x9E, CHR 0xA1, CHR 0xEF, CHR 0xB8, CHR 0x8F] @ '' ''"

definition format_change :: "'f float_ops \<Rightarrow> 'f option \<Rightarrow> string" where
  "format_change fl change =
     (case change of
        None \<Rightarrow> change_na
      | Some c \<Rightarrow>
          if float_gt0 fl c then change_up @ float_fmt2 fl c
          else if float_lt0 fl c then change_down @ float_fmt2 fl c
          else change_flat @ float_fmt2 fl c)"

section \<open>Reading the observation date\<close>

text \<open>
  \<^verbatim>\<open>datetime.strptime(s, '%Y-%m-%d')\<close> matches \<open>s\<close> from its start against the groups
  \<^verbatim>\<open>\d\d\d\d\<close>, \<^verbatim>\<open>1[0-2]|0[1-9]|[1-9]\<close> and
  \<^verbatim>\<open>3[0-1]|[1-2]\d|0[1-9]|[1-9]| [1-9]\<close> with the two hyphens between them, fails when
  text is left over, and fails when the three numbers are not a date (year 0, or a day
  the month does not have). Each matcher returns the number read and the rest of the
  text. The model reads the ASCII digits only; Python's \<^verbatim>\<open>\d\<close> also accepts the
  decimal digits of other scripts.
\<close>

definition is_digit :: "char \<Rightarrow> bool" where
  "is_digit c = (c \<in> set ''0123456789'')"

definition digit_val :: "char \<Rightarrow> int" where
  "digit_val c = int (of_char c) - 48"

fun match_Y :: "string \<Rightarrow> (int \<times> string) option" where
  "match_Y (a # b # c # d # rest) =
     (if is_digit a \<and> is_digit b \<and> is_digit c \<and> is_digit d
      then Some (1000 * digit_val a + 100 * digit_val b + 10 * digit_val c + digit_val d, rest)
      else None)"
| "match_Y _ = None"

fun match_m :: "string \<Rightarrow> (int \<times> string) option" where
  "match_m (a # b # rest) =
     (if a = CHR ''1'' \<and> b \<in> set ''012'' then Some (10 + digit_val b, rest)
      else if a = CHR ''0'' \<and> b \<in> set ''123456789'' then Some (digit_val b, rest)
      else if a \<in> set ''123456789'' then Some (digit_val a, b # rest)
      else None)"
| "match_m [a] = (if a \<in> set ''123456789'' then Some (digit_val a, []) else None)"
| "match_m [] = None"

fun match_d :: "string \<Rightarrow> (int \<times> string) option" where
  "match_d (a # b # rest) =
     (if a = CHR ''3'' \<and> b \<in> set ''01'' then Some (30 + digit_val b, rest)
      else if a \<in> set ''12'' \<and> is_digit b then Some (10 * digit_val a + digit_val b, rest)
      else if a = CHR ''0'' \<and> b \<in> set ''123456789'' then Some (digit_val b, rest)
      else if a \<in> set ''123456789'' then Some (digit_val a, b # rest)
      else if a = CHR '' '' \<and> b \<in> set ''123456789'' then Some (digit_val b, rest)
      else None)"
| "match_d [a] = (if a \<in> set ''123456789'' then Some (digit_val a, []) else None)"
| "match_d [] = None"

fun match_hyphen :: "string \<Rightarrow> string option" where
  "match_hyphen (c # rest) = (if c = CHR ''-'' then Some rest else None)"
| "match_hyphen [] = None"

definition strptime_Ymd :: "string \<Rightarrow> datetime option" where
  "strptime_Ymd s =
     (case match_Y s of None \<Rightarrow> None | Some (y, s1) \<Rightarrow>
     (case match_hyphen s1 of None \<Rightarrow> None | Some s2 \<Rightarrow>
     (case match_m s2 of None \<Rightarrow> None | Some (m, s3) \<Rightarrow>
     (case match_hyphen s3 of None \<Rightarrow> None | Some s4 \<Rightarrow>
     (case match_d s4 of None \<Rightarrow> None | Some (d, s5) \<Rightarrow>
        if s5 \<noteq> [] then None
        else if 1 \<le> y \<and> 1 \<le> d \<and> d \<le> days_in_month y m
        then Some \<lparr>year = y, month = m, day = d, hour = 0, minute = 0, second = 0\<rparr>
        else None)))))"

section \<open>Briefing formatter\<close>

definition briefing_head_1 :: string where
  "briefing_head_1 =
     [CHR 0xF0, CHR 0x9F, CHR 0x87, CHR 0xBA, CHR 0xF0, CHR 0x9F, CHR 0x87, CHR 0xB8] @
       '' <b>'' @ [CHR 0xEB, CHR 0xAF, CHR 0xB8, CHR 0xEA, CHR 0xB5, CHR 0xAD] @ '' '' @
       [CHR 0xEA, CHR 0xB2, CHR 0xBD, CHR 0xEC, CHR 0xA0, CHR 0x9C, CHR 0xEC, CHR 0xA7,
       CHR 0x80, CHR 0xED, CHR 0x91, CHR 0x9C] @ '' '' @ [CHR 0xEB, CHR 0xB8, CHR 0x8C,
       CHR 0xEB, CHR 0xA6, CHR 0xAC, CHR 0xED, CHR 0x95, CHR 0x91] @ ''</b>'' @ [CHR 0x0A,
       CHR 0xF0, CHR 0x9F, CHR 0x93, CHR 0x85] @ '' ''"

definition txt_year :: string where
  "txt_year =
     [CHR 0xEB, CHR 0x85, CHR 0x84] @ '' ''"

definition txt_month :: string where
  "txt_month =
     [CHR 0xEC, CHR 0x9B, CHR 0x94] @ '' ''"

definition txt_day :: string where
  "txt_day =
     [CHR 0xEC, CHR 0x9D, CHR 0xBC]"

definition briefing_head_2 :: string where
  "briefing_head_2 =
     '' '' @ [CHR 0xEB, CHR 0xB0, CHR 0x9C, CHR 0xEC, CHR 0x86, CHR 0xA1, CHR 0x0A,
       CHR 0x0A] @ ''<b>'' @ [CHR 0xF0, CHR 0x9F, CHR 0x93, CHR 0x8A] @ '' '' @ [CHR 0xEC,
       CHR 0xA3, CHR 0xBC, CHR 0xEC, CHR 0x9A, CHR 0x94] @ '' '' @ [CHR 0xEC, CHR 0xA7,
       CHR 0x80, CHR 0xED, CHR 0x91, CHR 0x9C] @ '':</b>''"

definition critical_open :: string where
  "critical_open =
     [CHR 0x0A] @ ''- <b>''"

definition important_head :: string where
  "important_head =
     [CHR 0x0A, CHR 0x0A] @ ''<b>'' @ [CHR 0xF0, CHR 0x9F, CHR 0x93, CHR 0x88] @ '' '' @
       [CHR 0xEA, CHR 0xB8, CHR 0xB0, CHR 0xED, CHR 0x83, CHR 0x80] @ '' '' @ [CHR 0xEC,
       CHR 0xA7, CHR 0x80, CHR 0xED, CHR 0x91, CHR 0x9C] @ '':</b>''"

definition important_open :: string where
  "important_open =
     [CHR 0x0A] @ ''- ''"

definition briefing_tail_1 :: string where
  "briefing_tail_1 =
     [CHR 0x0A, CHR 0x0A] @ ''<b>'' @ [CHR 0xF0, CHR 0x9F, CHR 0x93, CHR 0x8A] @ '' '' @
       [CHR 0xEB, CHR 0xB8, CHR 0x8C, CHR 0xEB, CHR 0xA6, CHR 0xAC, CHR 0xED, CHR 0x95,
       CHR 0x91] @ '' '' @ [CHR 0xEC, CHR 0x9A, CHR 0x94, CHR 0xEC, CHR 0x95, CHR 0xBD] @
       '':</b>'' @ [CHR 0x0A, CHR 0xEC, CHR 0xB5, CHR 0x9C, CHR 0xEC, CHR 0x8B, CHR 0xA0] @
       '' '' @ [CHR 0xEB, CHR 0xAF, CHR 0xB8, CHR 0xEA, CHR 0xB5, CHR 0xAD] @ '' '' @
       [CHR 0xEA, CHR 0xB2, CHR 0xBD, CHR 0xEC, CHR 0xA0, CHR 0x9C, CHR 0xEC, CHR 0xA7,
       CHR 0x80, CHR 0xED, CHR 0x91, CHR 0x9C, CHR 0xEB, CHR 0xA5, CHR 0xBC] @ '' '' @
       [CHR 0xED, CHR 0x99, CHR 0x95, CHR 0xEC, CHR 0x9D, CHR 0xB8, CHR 0xED, CHR 0x95,
       CHR 0x98, CHR 0xEC, CHR 0x84, CHR 0xB8, CHR 0xEC, CHR 0x9A, CHR 0x94] @ ''.'' @
       [CHR 0x0A, CHR 0x0A, CHR 0xE2, CHR 0x8F, CHR 0xB0] @ '' ''"

definition briefing_tail_2 :: string where
  "briefing_tail_2 =
     '' (KST) '' @ [CHR 0xEB, CHR 0xB0, CHR 0x9C, CHR 0xEC, CHR 0x86, CHR 0xA1, CHR 0x0A,
       CHR 0xF0, CHR 0x9F, CHR 0x94, CHR 0x84] @ '' '' @ [CHR 0xEB, CHR 0x8B, CHR 0xA4,
       CHR 0xEC, CHR 0x9D, CHR 0x8C] @ '' '' @ [CHR 0xEB, CHR 0xB8, CHR 0x8C, CHR 0xEB,
       CHR 0xA6, CHR 0xAC, CHR 0xED, CHR 0x95, CHR 0x91] @ '': '' @ [CHR 0xEB, CHR 0x82,
       CHR 0xB4, CHR 0xEC, CHR 0x9D, CHR 0xBC] @ '' '' @ [CHR 0xEC, CHR 0x98, CHR 0xA4,
       CHR 0xEC, CHR 0xA0, CHR 0x84] @ '' 7:30''"

text \<open>The first loop: the snapshots are put into two lists by their importance.\<close>

fun partition_loop :: "indicators \<Rightarrow> indicators \<times> indicators \<Rightarrow> indicators \<times> indicators" where
  "partition_loop [] acc = acc"
| "partition_loop ((series_id, data) # rest) (critical_indicators, important_indicators) =
     (if importance (info data) = ''critical''
      then partition_loop rest (critical_indicators @ [(series_id, data)], important_indicators)
      else if importance (info data) = ''important''
      then partition_loop rest (critical_indicators, important_indicators @ [(series_id, data)])
      else partition_loop rest (critical_indicators, important_indicators))"

text \<open>
  The bodies of the two rendering loops: what one pass makes of the message so far.
\<close>

definition critical_step :: "'f float_ops \<Rightarrow> string \<Rightarrow> string \<times> snapshot \<Rightarrow> string" where
  "critical_step fl message item =
     (let data = snd item;
          ind = info data;
          current = latest_value data;
          previous = previous_value data;
          ldate = latest_date data
      in if truthy current \<and> current \<noteq> Some ''.'' then
           let change = calculate_change fl current previous;
               change_str = format_change fl change;
               message' = message @ critical_open @ name ind @ ''</b>: '' @ py_str current @
                            unit ind @ '' '' @ change_str
           in if truthy ldate then
                (case strptime_Ymd (py_str ldate) of
                   Some date_obj \<Rightarrow>
                     message' @ '' ('' @ pad2 (month date_obj) @ ''/'' @ pad2 (day date_obj) @ '')''
                 | None \<Rightarrow> message')
              else message'
         else message)"

definition important_step :: "'f float_ops \<Rightarrow> string \<Rightarrow> string \<times> snapshot \<Rightarrow> string" where
  "important_step fl message item =
     (let data = snd item;
          ind = info data;
          current = latest_value data;
          previous = previous_value data
      in if truthy current \<and> current \<noteq> Some ''.'' then
           let change = calculate_change fl current previous;
               change_str = format_change fl change
           in message @ important_open @ name ind @ '': '' @ py_str current @ unit ind @ '' '' @
                change_str
         else message)"

definition format_economic_briefing :: "'f float_ops \<Rightarrow> world \<Rightarrow> indicators \<Rightarrow> string" where
  "format_economic_briefing fl w indicators_data =
     (let korean_time = get_korean_time w;
          (critical_indicators, important_indicators) = partition_loop indicators_data ([], []);
          message1 = briefing_head_1 @ strftime_Y korean_time @ txt_year @
                       pad2 (month korean_time) @ txt_month @ pad2 (day korean_time) @ txt_day @
                       briefing_head_2;
          message2 = foldl (critical_step fl) message1 critical_indicators;
          message3 = (if important_indicators \<noteq> []
                      then foldl (important_step fl) (message2 @ important_head) important_indicators
                      else message2)
      in message3 @ briefing_tail_1 @ pad2 (hour korean_time) @ '':'' @ pad2 (minute korean_time) @
           briefing_tail_2)"

section \<open>Notifier\<close>

definition send_telegram_message :: "world \<Rightarrow> string \<Rightarrow> bool \<times> effect list" where
  "send_telegram_message w message =
     (case telegram_reply w message of
        Http_Response status_code body \<Rightarrow> if status_code = 200 then True else False
      | Http_Exception \<Rightarrow> False,
      [Telegram_Post message])"

section \<open>One briefing cycle\<close>

text \<open>
  \<^verbatim>\<open>send_economic_briefing()\<close> returns nothing; the outcome says which way it left:
  at the clock gate, at the empty fetch result, or after the delivery call with what that
  call returned.
\<close>

datatype outcome = Gate_Closed | No_Data | Delivery bool

definition send_economic_briefing :: "'f float_ops \<Rightarrow> world \<Rightarrow> outcome \<times> effect list" where
  "send_economic_briefing fl w =
     (if \<not> should_send_briefing w then (Gate_Closed, [])
      else
        (case get_latest_indicators w of (indicators_data, e1) \<Rightarrow>
           if indicators_data = [] then (No_Data, e1)
           else
             let briefing_message = format_economic_briefing fl w indicators_data in
             (case send_telegram_message w briefing_message of (success, e2) \<Rightarrow>
                (Delivery success, e1 @ e2))))"

section \<open>Process start and scheduler loop\<close>

definition startup_1 :: string where
  "startup_1 =
     [CHR 0xF0, CHR 0x9F, CHR 0x87, CHR 0xBA, CHR 0xF0, CHR 0x9F, CHR 0x87, CHR 0xB8] @
       '' <b>'' @ [CHR 0xEB, CHR 0xAF, CHR 0xB8, CHR 0xEA, CHR 0xB5, CHR 0xAD] @ '' '' @
       [CHR 0xEA, CHR 0xB2, CHR 0xBD, CHR 0xEC, CHR 0xA0, CHR 0x9C, CHR 0xEC, CHR 0xA7,
       CHR 0x80, CHR 0xED, CHR 0x91, CHR 0x9C] @ '' '' @ [CHR 0xEB, CHR 0xB8, CHR 0x8C,
       CHR 0xEB, CHR 0xA6, CHR 0xAC, CHR 0xED, CHR 0x95, CHR 0x91] @ '' '' @ [CHR 0xEB,
       CHR 0xB4, CHR 0x87] @ '' '' @ [CHR 0xEC, CHR 0x8B, CHR 0x9C, CHR 0xEC, CHR 0x9E,
       CHR 0x91] @ ''!</b>'' @ [CHR 0x0A, CHR 0x0A, CHR 0xF0, CHR 0x9F, CHR 0x93, CHR 0x85]
       @ '' ''"

definition startup_2 :: string where
  "startup_2 =
     [CHR 0xEC, CHR 0x9A, CHR 0x94, CHR 0xEC, CHR 0x9D, CHR 0xBC] @ '')'' @ [CHR 0x0A,
       CHR 0xE2, CHR 0x8F, CHR 0xB0] @ '' ''"

definition startup_3 :: string where
  "startup_3 =
     '' (KST)'' @ [CHR 0x0A, CHR 0x0A] @ ''<b>'' @ [CHR 0xF0, CHR 0x9F, CHR 0x93, CHR 0x8A]
       @ '' '' @ [CHR 0xEB, CHR 0xB8, CHR 0x8C, CHR 0xEB, CHR 0xA6, CHR 0xAC, CHR 0xED,
       CHR 0x95, CHR 0x91] @ '' '' @ [CHR 0xEC, CHR 0x8A, CHR 0xA4, CHR 0xEC, CHR 0xBC,
       CHR 0x80, CHR 0xEC, CHR 0xA4, CHR 0x84] @ '':</b>'' @ [CHR 0x0A] @ ''- '' @
       [CHR 0xEB, CHR 0xA7, CHR 0xA4, CHR 0xEC, CHR 0x9D, CHR 0xBC] @ '' '' @ [CHR 0xEC,
       CHR 0x98, CHR 0xA4, CHR 0xEC, CHR 0xA0, CHR 0x84] @ '' 7:30 '' @ [CHR 0xEC,
       CHR 0xA0, CHR 0x95, CHR 0xEA, CHR 0xB8, CHR 0xB0] @ '' '' @ [CHR 0xEB, CHR 0xB0,
       CHR 0x9C, CHR 0xEC, CHR 0x86, CHR 0xA1, CHR 0x0A] @ ''- '' @ [CHR 0xEC, CHR 0xA3,
       CHR 0xBC, CHR 0xEC, CHR 0x9A, CHR 0x94] @ '' '' @ [CHR 0xEA, CHR 0xB2, CHR 0xBD,
       CHR 0xEC, CHR 0xA0, CHR 0x9C, CHR 0xEC, CHR 0xA7, CHR 0x80, CHR 0xED, CHR 0x91,
       CHR 0x9C] @ '' '' @ [CHR 0xEC, CHR 0x9E, CHR 0x90, CHR 0xEB, CHR 0x8F, CHR 0x99] @
       '' '' @ [CHR 0xEC, CHR 0x88, CHR 0x98, CHR 0xEC, CHR 0xA7, CHR 0x91, CHR 0x0A] @
       ''- '' @ [CHR 0xED, CHR 0x8F, CHR 0x89, CHR 0xEC, CHR 0x9D, CHR 0xBC, CHR 0xEB,
       CHR 0xA7, CHR 0x8C] @ '' '' @ [CHR 0xEC, CHR 0x9A, CHR 0xB4, CHR 0xEC, CHR 0x98,
       CHR 0x81] @ '' ('' @ [CHR 0xEC, CHR 0xA3, CHR 0xBC, CHR 0xEB, CHR 0xA7, CHR 0x90] @
       '' '' @ [CHR 0xED, CHR 0x9C, CHR 0xB4, CHR 0xEB, CHR 0xAC, CHR 0xB4] @ '')'' @
       [CHR 0x0A, CHR 0x0A] @ ''<b>'' @ [CHR 0xF0, CHR 0x9F, CHR 0x93, CHR 0x88] @ '' '' @
       [CHR 0xED, CHR 0x8F, CHR 0xAC, CHR 0xED, CHR 0x95, CHR 0xA8] @ '' '' @ [CHR 0xEC,
       CHR 0xA7, CHR 0x80, CHR 0xED, CHR 0x91, CHR 0x9C] @ '':</b>'' @ [CHR 0x0A] @ ''- ''
       @ [CHR 0xEC, CHR 0x8B, CHR 0xA4, CHR 0xEC, CHR 0x97, CHR 0x85, CHR 0xEB, CHR 0xA5,
       CHR 0xA0] @ '', CPI, '' @ [CHR 0xEB, CHR 0xB9, CHR 0x84, CHR 0xEB, CHR 0x86,
       CHR 0x8D, CHR 0xEC, CHR 0x97, CHR 0x85, CHR 0xEC, CHR 0xB7, CHR 0xA8, CHR 0xEC,
       CHR 0x97, CHR 0x85, CHR 0xEC, CHR 0x9E, CHR 0x90, CHR 0xEC, CHR 0x88, CHR 0x98,
       CHR 0x0A] @ ''- GDP, '' @ [CHR 0xEC, CHR 0x86, CHR 0x8C, CHR 0xEB, CHR 0xA7,
       CHR 0xA4, CHR 0xED, CHR 0x8C, CHR 0x90, CHR 0xEB, CHR 0xA7, CHR 0xA4] @ '' '' @
       [CHR 0xEB, CHR 0x93, CHR 0xB1, CHR 0x0A, CHR 0x0A, CHR 0xEB, CHR 0x8B, CHR 0xA4,
       CHR 0xEC, CHR 0x9D, CHR 0x8C] @ '' '' @ [CHR 0xEB, CHR 0xB8, CHR 0x8C, CHR 0xEB,
       CHR 0xA6, CHR 0xAC, CHR 0xED, CHR 0x95, CHR 0x91] @ '': '' @ [CHR 0xEB, CHR 0x82,
       CHR 0xB4, CHR 0xEC, CHR 0x9D, CHR 0xBC] @ '' '' @ [CHR 0xEC, CHR 0x98, CHR 0xA4,
       CHR 0xEC, CHR 0xA0, CHR 0x84] @ '' 7:30 '' @ [CHR 0xF0, CHR 0x9F, CHR 0x93,
       CHR 0x85]"

definition weekday_names :: "string list" where
  "weekday_names =
     [[CHR 0xEC, CHR 0x9B, CHR 0x94], [CHR 0xED, CHR 0x99, CHR 0x94],
      [CHR 0xEC, CHR 0x88, CHR 0x98], [CHR 0xEB, CHR 0xAA, CHR 0xA9],
      [CHR 0xEA, CHR 0xB8, CHR 0x88], [CHR 0xED, CHR 0x86, CHR 0xA0],
      [CHR 0xEC, CHR 0x9D, CHR 0xBC]]"

definition startup_message :: "world \<Rightarrow> string" where
  "startup_message w =
     (let korean_time = get_korean_time w;
          weekday_name = weekday_names ! nat (weekday korean_time)
      in startup_1 @ strftime_Y korean_time @ ''-'' @ pad2 (month korean_time) @ ''-'' @
           pad2 (day korean_time) @ '' ('' @ weekday_name @ startup_2 @
           pad2 (hour korean_time) @ '':'' @ pad2 (minute korean_time) @ '':'' @
           pad2 (second korean_time) @ startup_3)"

definition send_startup_message :: "world \<Rightarrow> effect list" where
  "send_startup_message w = snd (send_telegram_message w (startup_message w))"

text \<open>The block at the end of the module that runs once, before the loop.\<close>

definition startup :: "'f float_ops \<Rightarrow> world \<Rightarrow> effect list" where
  "startup fl w =
     (if truthy (FRED_API_KEY w) \<and> truthy (BOT_TOKEN w) \<and> truthy (CHAT_ID w)
      then send_startup_message w @ snd (send_economic_briefing fl w)
      else [])"

text \<open>
  The loop \<^verbatim>\<open>while True: schedule.run_pending(); time.sleep(60)\<close> never returns. Its
  model runs a finite number of wakes. Which of the two registered jobs are due at a wake
  is decided by the \<^verbatim>\<open>schedule\<close> library from the system clock; a wake is given as
  the list of worlds in which its due jobs run, one after the other. Both jobs are
  \<^verbatim>\<open>send_economic_briefing\<close>.
\<close>

fun run_pending :: "'f float_ops \<Rightarrow> world list \<Rightarrow> effect list" where
  "run_pending fl [] = []"
| "run_pending fl (w # ws) = snd (send_economic_briefing fl w) @ run_pending fl ws"

fun scheduler_loop :: "'f float_ops \<Rightarrow> world list list \<Rightarrow> effect list" where
  "scheduler_loop fl [] = []"
| "scheduler_loop fl (wake # wakes) = run_pending fl wake @ scheduler_loop fl wakes"

section \<open>Notions used in the statements\<close>

text \<open>
  A request for a series has failed when it raised or was answered with a status other
  than 200.
\<close>

definition request_failed :: "world \<Rightarrow> string \<Rightarrow> bool" where
  "request_failed w series_id =
     (case fred_reply w series_id of
        Http_Response status_code body \<Rightarrow> status_code \<noteq> 200
      | Http_Exception \<Rightarrow> True)"

text \<open>It was answered with data when the status is 200 and the body lists an observation.\<close>

definition answered_with_data :: "world \<Rightarrow> string \<Rightarrow> bool" where
  "answered_with_data w series_id =
     (case fred_reply w series_id of
        Http_Response status_code (Body_Observations (Some (latest # older))) \<Rightarrow>
          status_code = 200
      | _ \<Rightarrow> False)"

definition series_ids :: "string list" where
  "series_ids = map fst ECONOMIC_INDICATORS"

text \<open>
  The entry one pass of the fetch loop stores for a row of the table, if it stores one.
\<close>

definition snapshot_entry :: "world \<Rightarrow> string \<times> indicator_info \<Rightarrow> (string \<times> snapshot) option" where
  "snapshot_entry w row =
     (case fst (get_fred_data w (fst row)) of
        [] \<Rightarrow> None
      | latest # older \<Rightarrow>
          Some (fst row,
            \<lparr>info = snd row,
             latest_value = obs_value latest,
             latest_date = obs_date latest,
             previous_value = (case older of [] \<Rightarrow> None | p # _ \<Rightarrow> obs_value p),
             previous_date = (case older of [] \<Rightarrow> None | p # _ \<Rightarrow> obs_date p)\<rparr>))"

text \<open>The two tiers, and the text one pass of a rendering loop appends to the message.\<close>

definition is_critical :: "string \<times> snapshot \<Rightarrow> bool" where
  "is_critical item = (importance (info (snd item)) = ''critical'')"

definition is_important :: "string \<times> snapshot \<Rightarrow> bool" where
  "is_important item = (importance (info (snd item)) = ''important'')"

definition critical_line :: "'f float_ops \<Rightarrow> string \<times> snapshot \<Rightarrow> string" where
  "critical_line fl item = critical_step fl [] item"

definition important_line :: "'f float_ops \<Rightarrow> string \<times> snapshot \<Rightarrow> string" where
  "important_line fl item = important_step fl [] item"

definition briefing_head :: "world \<Rightarrow> string" where
  "briefing_head w =
     briefing_head_1 @ strftime_Y (now w) @ txt_year @ pad2 (month (now w)) @ txt_month @
       pad2 (day (now w)) @ txt_day @ briefing_head_2"

definition briefing_tail :: "world \<Rightarrow> string" where
  "briefing_tail w =
     briefing_tail_1 @ pad2 (hour (now w)) @ '':'' @ pad2 (minute (now w)) @ briefing_tail_2"

text \<open>
  A binary fraction: an integer divided by a power of two. Every finite binary
  floating-point number is one.
\<close>

definition dyadic :: "real \<Rightarrow> bool" where
  "dyadic x = (\<exists>(m::int) (k::nat). x = of_int m / 2 ^ k)"

section \<open>Sample inputs\<close>

text \<open>
  Concrete values on which the theorems below are instantiated: a clock reading, a world
  around it, and an implementation of the float operations that reads one decimal digit.
\<close>

definition at_time :: "int \<Rightarrow> int \<Rightarrow> int \<Rightarrow> int \<Rightarrow> int \<Rightarrow> datetime" where
  "at_time y m d h mi = \<lparr>year = y, month = m, day = d, hour = h, minute = mi, second = 0\<rparr>"

definition obs :: "string \<Rightarrow> string \<Rightarrow> observation" where
  "obs v d = \<lparr>obs_value = Some v, obs_date = Some d\<rparr>"

definition world_at ::
  "datetime \<Rightarrow> (string \<Rightarrow> fred_body http_result) \<Rightarrow> (string \<Rightarrow> string http_result) \<Rightarrow> world" where
  "world_at t fred telegram =
     \<lparr>FRED_API_KEY = Some ''key'', BOT_TOKEN = Some ''token'', CHAT_ID = Some ''42'',
      now = t, fred_reply = fred, telegram_reply = telegram\<rparr>"

text \<open>Answers of a service given as a table; a key outside the table raises.\<close>

definition replies :: "(string \<times> 'b http_result) list \<Rightarrow> string \<Rightarrow> 'b http_result" where
  "replies table key = (case map_of table key of Some r \<Rightarrow> r | None \<Rightarrow> Http_Exception)"

definition ok :: "observation list \<Rightarrow> fred_body http_result" where
  "ok observations = Http_Response 200 (Body_Observations (Some observations))"

definition accepted :: "string \<Rightarrow> string http_result" where
  "accepted message = Http_Response 200 ''ok''"

definition refused :: "string \<Rightarrow> string http_result" where
  "refused message = Http_Response 400 ''bad request''"

text \<open>
  Two of the five series fail (one by status 500, one by a network error), three are
  answered with observations.
\<close>

definition two_failures :: "string \<Rightarrow> fred_body http_result" where
  "two_failures =
     replies
       [(''UNRATE'', ok [obs ''4.3'' ''2024-08-01'', obs ''4.1'' ''2024-07-01'']),
        (''CPIAUCSL'', Http_Response 500 Body_Error),
        (''PAYEMS'', ok [obs ''159000'' ''2024-08-01'']),
        (''RRSFS'', ok [obs ''0.5'' ''2024-07-01'', obs ''0.5'' ''2024-06-01''])]"

text \<open>
  Two series fail; of the three answered with status 200, one has an empty list of
  observations.
\<close>

definition empty_answer :: "string \<Rightarrow> fred_body http_result" where
  "empty_answer =
     replies
       [(''UNRATE'', ok []),
        (''CPIAUCSL'', ok [obs ''3.2'' ''2024-08-01'']),
        (''PAYEMS'', Http_Response 500 Body_Error),
        (''GDPC1'', ok [obs ''2.5'' ''2024-04-01''])]"

text \<open>
  One series answered with the missing-value token as its latest value, one answered
  with a body that has no list of observations, one with a date that is not a date.
\<close>

definition missing_values :: "string \<Rightarrow> fred_body http_result" where
  "missing_values =
     replies
       [(''UNRATE'', ok [obs ''4.3'' ''2024-08-01'', obs ''4.1'' ''2024-07-01'']),
        (''CPIAUCSL'', ok [obs ''.'' ''2024-08-01'', obs ''3.2'' ''2024-07-01'']),
        (''PAYEMS'', ok [obs ''159000'' ''2024-02-30'']),
        (''GDPC1'', Http_Response 200 (Body_Observations None)),
        (''RRSFS'', ok [obs ''.'' ''2024-07-01''])]"

text \<open>Every request fails: by a status other than 200 or by a network error.\<close>

definition all_fail :: "string \<Rightarrow> fred_body http_result" where
  "all_fail =
     replies
       [(''UNRATE'', Http_Response 500 Body_Error),
        (''CPIAUCSL'', Http_Response 429 (Body_Observations (Some [obs ''3.2'' ''2024-08-01''])))]"

text \<open>
  Float operations for the sample inputs only: numbers with one digit before and one
  after the point, held in tenths. They stand in for Python's floats where a sample needs
  a change to be computed.
\<close>

definition tenths :: "int float_ops" where
  "tenths =
     \<lparr>float_of_string =
        (\<lambda>s. case s of
           [a, b, c] \<Rightarrow>
             if is_digit a \<and> b = CHR ''.'' \<and> is_digit c
             then Some (10 * digit_val a + digit_val c) else None
         | _ \<Rightarrow> None),
      float_sub = (\<lambda>x y. x - y),
      float_gt0 = (\<lambda>x. 0 < x),
      float_lt0 = (\<lambda>x. x < 0),
      float_fmt2 =
        (\<lambda>x. (if x < 0 then ''-'' else []) @ decimal (nat \<bar>x\<bar> div 10) @ ''.'' @
           [digit_char (nat \<bar>x\<bar> mod 10)] @ ''0'')\<rparr>"

text \<open>A snapshot with no previous observation, for a row of the indicator table.\<close>

definition snap :: "nat \<Rightarrow> string \<Rightarrow> string \<Rightarrow> string \<times> snapshot" where
  "snap n v d =
     (fst (ECONOMIC_INDICATORS ! n),
      \<lparr>info = snd (ECONOMIC_INDICATORS ! n), latest_value = Some v, latest_date = Some d,
       previous_value = None, previous_date = None\<rparr>)"

text \<open>
  Binary fractions as pairs of a numerator and the exponent of the denominator, with their
  value, their exact difference and the format \<^verbatim>\<open>{:.2f}\<close> (nearest hundredth, ties
  to the even one).
\<close>

definition dyadic_value :: "int \<times> nat \<Rightarrow> real" where
  "dyadic_value f = of_int (fst f) / 2 ^ snd f"

definition dyadic_sub :: "int \<times> nat \<Rightarrow> int \<times> nat \<Rightarrow> int \<times> nat" where
  "dyadic_sub a b =
     (let k = max (snd a) (snd b)
      in (fst a * 2 ^ (k - snd a) - fst b * 2 ^ (k - snd b), k))"

definition dyadic_fmt2 :: "int \<times> nat \<Rightarrow> string" where
  "dyadic_fmt2 f =
     (let n = (\<bar>fst f\<bar> * 100) div 2 ^ snd f;
          r = (\<bar>fst f\<bar> * 100) mod 2 ^ snd f;
          h = (if 2 ^ snd f < 2 * r \<or> (2 * r = 2 ^ snd f \<and> odd n) then n + 1 else n)
      in (if fst f < 0 then ''-'' else []) @ decimal (nat (h div 100)) @ ''.'' @ pad2 (h mod 100))"

text \<open>
  Float operations for the sample inputs only, that read the two strings of the example of
  the change calculator: \<open>4841369599423283 / 2 ^ 50\<close> and
  \<open>2308094809027379 / 2 ^ 49\<close> are the binary64 numbers nearest to 4.3 and to 4.1, and
  their difference is a binary64 number, so that the exact difference is the one binary64
  subtraction returns.
\<close>

definition binary64_sample :: "(int \<times> nat) float_ops" where
  "binary64_sample =
     \<lparr>float_of_string =
        (\<lambda>s. if s = ''4.3'' then Some (4841369599423283, 50)
             else if s = ''4.1'' then Some (2308094809027379, 49)
             else None),
      float_sub = dyadic_sub,
      float_gt0 = (\<lambda>f. 0 < fst f),
      float_lt0 = (\<lambda>f. fst f < 0),
      float_fmt2 = dyadic_fmt2\<rparr>"

section \<open>Properties\<close>

subsection \<open>Clock gate\<close>

lemma weekday_range: "0 \<le> weekday t \<and> weekday t \<le> 6"
  by (simp add: weekday_def)

lemmas calendar_defs =
  weekday_def toordinal_def at_time_def days_before_year_def days_before_month_def
  days_in_month_def DAYS_BEFORE_MONTH_def DAYS_IN_MONTH_def is_leap_def

text \<open>
  C3. The weekday of a clock reading is one of Monday to Friday (below 5), Saturday (5) or
  Sunday (6). On a Saturday or Sunday \<open>should_send_briefing\<close> is false whatever the hour
  and the minute; from Monday to Friday it is true exactly when the hour is 7 and the
  minute is 30.
\<close>

theorem should_send_briefing_gate:
  "(weekday (now w) = 5 \<or> weekday (now w) = 6 \<longrightarrow> \<not> should_send_briefing w) \<and>
   (weekday (now w) < 5 \<longrightarrow>
      should_send_briefing w = (hour (now w) = 7 \<and> minute (now w) = 30)) \<and>
   (weekday (now w) < 5 \<or> weekday (now w) = 5 \<or> weekday (now w) = 6)"
proof -
  have "0 \<le> weekday (now w)" "weekday (now w) \<le> 6"
    by (simp_all add: weekday_def)
  then have "weekday (now w) < 5 \<or> weekday (now w) = 5 \<or> weekday (now w) = 6"
    by arith
  then show ?thesis
    by (auto simp: should_send_briefing_def is_business_day_def get_korean_time_def Let_def)
qed

text \<open>
  Saturday 3 August 2024 at 07:30 is refused; Thursday 1 August 2024 is accepted at 07:30
  and refused at 07:31.
\<close>

theorem should_send_briefing_gate_witness:
  "\<not> should_send_briefing (world_at (at_time 2024 8 3 7 30) (\<lambda>s. Http_Exception) (\<lambda>m. Http_Exception)) \<and>
   should_send_briefing (world_at (at_time 2024 8 1 7 30) (\<lambda>s. Http_Exception) (\<lambda>m. Http_Exception)) \<and>
   \<not> should_send_briefing (world_at (at_time 2024 8 1 7 31) (\<lambda>s. Http_Exception) (\<lambda>m. Http_Exception))"
  using
    should_send_briefing_gate
      [of "world_at (at_time 2024 8 3 7 30) (\<lambda>s. Http_Exception) (\<lambda>m. Http_Exception)"]
    should_send_briefing_gate
      [of "world_at (at_time 2024 8 1 7 30) (\<lambda>s. Http_Exception) (\<lambda>m. Http_Exception)"]
    should_send_briefing_gate
      [of "world_at (at_time 2024 8 1 7 31) (\<lambda>s. Http_Exception) (\<lambda>m. Http_Exception)"]
  by (simp add: world_at_def calendar_defs)

subsection \<open>Indicator fetcher\<close>

lemma dict_set_fresh: "k \<notin> fst ` set kvs \<Longrightarrow> dict_set k v kvs = kvs @ [(k, v)]"
  by (induction kvs) auto

lemma get_fred_data_effects: "snd (get_fred_data w series_id) = [Fred_Get series_id]"
  by (simp add: get_fred_data_def)

lemma get_latest_indicators_loop_closed:
  "distinct (map fst acc @ map fst rows) \<Longrightarrow>
   get_latest_indicators_loop w rows (acc, effs) =
     (acc @ List.map_filter (snapshot_entry w) rows, effs @ map (\<lambda>row. Fred_Get (fst row)) rows)"
proof (induction rows arbitrary: acc effs)
  case Nil
  then show ?case by simp
next
  case (Cons row rows)
  obtain series_id ind_info where row: "row = (series_id, ind_info)"
    by (cases row)
  obtain observations e where g: "get_fred_data w series_id = (observations, e)"
    by (cases "get_fred_data w series_id")
  have e: "e = [Fred_Get series_id]"
    using g get_fred_data_effects [of w series_id] by simp
  show ?case
  proof (cases observations)
    case Nil
    have "distinct (map fst acc @ map fst rows)"
      using Cons.prems by (simp add: row)
    then have "get_latest_indicators_loop w rows (acc, effs @ e) =
        (acc @ List.map_filter (snapshot_entry w) rows,
         (effs @ e) @ map (\<lambda>row. Fred_Get (fst row)) rows)"
      by (rule Cons.IH)
    moreover have "snapshot_entry w row = None"
      by (simp add: snapshot_entry_def row g Nil)
    moreover have "get_latest_indicators_loop w (row # rows) (acc, effs) =
        get_latest_indicators_loop w rows (acc, effs @ e)"
      by (simp add: row g Nil)
    ultimately show ?thesis
      by (simp add: e row)
  next
    case (Cons latest older)
    let ?v = "\<lparr>info = ind_info, latest_value = obs_value latest, latest_date = obs_date latest,
       previous_value = (case older of [] \<Rightarrow> None | p # _ \<Rightarrow> obs_value p),
       previous_date = (case older of [] \<Rightarrow> None | p # _ \<Rightarrow> obs_date p)\<rparr>"
    have fresh: "series_id \<notin> fst ` set acc"
      using Cons.prems by (auto simp: row)
    have d: "distinct (map fst (acc @ [(series_id, ?v)]) @ map fst rows)"
      using Cons.prems by (auto simp: row)
    have "get_latest_indicators_loop w rows (acc @ [(series_id, ?v)], effs @ e) =
        ((acc @ [(series_id, ?v)]) @ List.map_filter (snapshot_entry w) rows,
         (effs @ e) @ map (\<lambda>row. Fred_Get (fst row)) rows)"
      using d by (rule Cons.IH)
    moreover have "snapshot_entry w row = Some (series_id, ?v)"
      by (simp add: snapshot_entry_def row g Cons)
    moreover have "get_latest_indicators_loop w (row # rows) (acc, effs) =
        get_latest_indicators_loop w rows (acc @ [(series_id, ?v)], effs @ e)"
      by (simp add: row g Cons dict_set_fresh [OF fresh] Let_def split: list.splits)
    ultimately show ?thesis
      by (simp add: e row)
  qed
qed

lemma distinct_series_ids: "distinct (map fst ECONOMIC_INDICATORS)"
  by (simp add: ECONOMIC_INDICATORS_def)

lemma get_latest_indicators_closed:
  "get_latest_indicators w =
     (List.map_filter (snapshot_entry w) ECONOMIC_INDICATORS, map Fred_Get series_ids)"
  using get_latest_indicators_loop_closed [of "[]" ECONOMIC_INDICATORS w "[]"] distinct_series_ids
  by (simp add: get_latest_indicators_def series_ids_def comp_def)

lemma map_fst_snapshot_entries:
  "map fst (List.map_filter (snapshot_entry w) rows) =
     filter (\<lambda>sid. fst (get_fred_data w sid) \<noteq> []) (map fst rows)"
  by (induction rows) (auto simp: snapshot_entry_def split: list.splits)

lemma answered_iff: "answered_with_data w sid = (fst (get_fred_data w sid) \<noteq> [])"
  by (simp add: answered_with_data_def get_fred_data_def
      split: http_result.splits fred_body.splits option.splits list.splits)

lemma failed_not_answered: "request_failed w sid \<Longrightarrow> \<not> answered_with_data w sid"
  by (simp add: answered_with_data_def request_failed_def
      split: http_result.splits fred_body.splits option.splits list.splits)

lemma fetched_ids:
  "map fst (fst (get_latest_indicators w)) = filter (answered_with_data w) series_ids"
  by (simp add: get_latest_indicators_closed map_fst_snapshot_entries series_ids_def answered_iff [symmetric])

lemma fetch_effects: "snd (get_latest_indicators w) = map Fred_Get series_ids"
  by (simp add: get_latest_indicators_closed)



lemmas sample_defs =
  world_at_def replies_def ok_def obs_def accepted_def refused_def two_failures_def
  empty_answer_def missing_values_def

lemma entries_have_latest:
  "(k, d) \<in> set (List.map_filter (snapshot_entry w) rows) \<Longrightarrow>
   \<exists>latest older.
     fred_reply w k = Http_Response 200 (Body_Observations (Some (latest # older))) \<and>
     latest_value d = obs_value latest \<and> latest_date d = obs_date latest"
proof (induction rows)
  case Nil
  then show ?case by simp
next
  case (Cons row rows)
  show ?case
  proof (cases "snapshot_entry w row")
    case None
    with Cons show ?thesis by simp
  next
    case (Some e)
    show ?thesis
    proof (cases "(k, d) = e")
      case True
      with Some show ?thesis
        by (auto simp: snapshot_entry_def get_fred_data_def
            split: list.splits http_result.splits fred_body.splits option.splits if_splits)
    next
      case False
      with Some Cons show ?thesis by auto
    qed
  qed
qed

text \<open>
  C10. A series answered with status 200 and an empty list of observations, or with a
  body that has no list of observations, is left out of the mapping, as a series whose
  request failed is. Every snapshot in the mapping returned by
  \<open>get_latest_indicators\<close> comes from an answer with status 200 whose first
  observation gave the snapshot its latest value and latest date.
\<close>

theorem empty_observations_omitted:
  "((fred_reply w sid = Http_Response 200 (Body_Observations (Some [])) \<or>
     fred_reply w sid = Http_Response 200 (Body_Observations None) \<or>
     request_failed w sid) \<longrightarrow>
      sid \<notin> set (map fst (fst (get_latest_indicators w)))) \<and>
   (\<forall>(k, d) \<in> set (fst (get_latest_indicators w)).
      \<exists>latest older.
        fred_reply w k = Http_Response 200 (Body_Observations (Some (latest # older))) \<and>
        latest_value d = obs_value latest \<and> latest_date d = obs_date latest)"
proof (intro conjI impI)
  assume a: "fred_reply w sid = Http_Response 200 (Body_Observations (Some [])) \<or>
     fred_reply w sid = Http_Response 200 (Body_Observations None) \<or> request_failed w sid"
  then have "\<not> answered_with_data w sid"
    by (auto simp: answered_with_data_def request_failed_def
        split: http_result.splits fred_body.splits option.splits list.splits)
  then show "sid \<notin> set (map fst (fst (get_latest_indicators w)))"
    by (simp add: fetched_ids)
next
  show "\<forall>(k, d) \<in> set (fst (get_latest_indicators w)).
      \<exists>latest older.
        fred_reply w k = Http_Response 200 (Body_Observations (Some (latest # older))) \<and>
        latest_value d = obs_value latest \<and> latest_date d = obs_date latest"
    using entries_have_latest [of _ _ w ECONOMIC_INDICATORS]
    by (auto simp: get_latest_indicators_closed)
qed

text \<open>
  The body of the answer for GDPC1 has no list of observations; four series are in the
  mapping, and the latest observation of UNRATE is the first one of its answer.
\<close>

theorem empty_observations_omitted_witness:
  "''GDPC1'' \<notin> set (map fst (fst (get_latest_indicators
       (world_at (at_time 2024 8 1 7 30) missing_values accepted)))) \<and>
   map fst (fst (get_latest_indicators
       (world_at (at_time 2024 8 1 7 30) missing_values accepted))) =
     [''UNRATE'', ''CPIAUCSL'', ''PAYEMS'', ''RRSFS''] \<and>
   (\<exists>latest older.
      fred_reply (world_at (at_time 2024 8 1 7 30) missing_values accepted) ''UNRATE'' =
        Http_Response 200 (Body_Observations (Some (latest # older))) \<and>
      obs_value latest = Some ''4.3'' \<and> obs_date latest = Some ''2024-08-01'')"
  using empty_observations_omitted
    [of "world_at (at_time 2024 8 1 7 30) missing_values accepted" "''GDPC1''"]
  by (simp add: sample_defs get_latest_indicators_closed ECONOMIC_INDICATORS_def
      snapshot_entry_def get_fred_data_def)

subsection \<open>Briefing formatter\<close>

lemma critical_step_append: "critical_step fl message item = message @ critical_line fl item"
  by (simp add: critical_step_def critical_line_def Let_def split: option.splits)

lemma important_step_append: "important_step fl message item = message @ important_line fl item"
  by (simp add: important_step_def important_line_def Let_def)

lemma foldl_critical_step:
  "foldl (critical_step fl) message items = message @ concat (map (critical_line fl) items)"
proof (induction items arbitrary: message)
  case Nil
  then show ?case by simp
next
  case (Cons item items)
  then show ?case by (simp add: critical_step_append [of fl message item])
qed

lemma foldl_important_step:
  "foldl (important_step fl) message items = message @ concat (map (important_line fl) items)"
proof (induction items arbitrary: message)
  case Nil
  then show ?case by simp
next
  case (Cons item items)
  then show ?case by (simp add: important_step_append [of fl message item])
qed

lemma partition_loop_closed:
  "partition_loop indicators_data (cs, is) =
     (cs @ filter is_critical indicators_data, is @ filter is_important indicators_data)"
  by (induction indicators_data arbitrary: cs "is")
    (auto simp: is_critical_def is_important_def)

lemma format_economic_briefing_structure:
  "format_economic_briefing fl w indicators_data =
     briefing_head w @
     concat (map (critical_line fl) (filter is_critical indicators_data)) @
     (if filter is_important indicators_data = [] then []
      else important_head @ concat (map (important_line fl) (filter is_important indicators_data))) @
     briefing_tail w"
  by (simp add: format_economic_briefing_def partition_loop_closed foldl_critical_step
      foldl_important_step briefing_head_def briefing_tail_def get_korean_time_def Let_def)

subsection \<open>Cycle and delivery\<close>

lemma send_telegram_message_effects:
  "snd (send_telegram_message w message) = [Telegram_Post message]"
  by (simp add: send_telegram_message_def)

lemma send_economic_briefing_open:
  "should_send_briefing w \<Longrightarrow> fst (get_latest_indicators w) \<noteq> [] \<Longrightarrow>
   send_economic_briefing fl w =
     (Delivery (fst (send_telegram_message w
        (format_economic_briefing fl w (fst (get_latest_indicators w))))),
      map Fred_Get series_ids @
      [Telegram_Post (format_economic_briefing fl w (fst (get_latest_indicators w)))])"
proof -
  assume gate: "should_send_briefing w" and data: "fst (get_latest_indicators w) \<noteq> []"
  obtain indicators_data e1 where g: "get_latest_indicators w = (indicators_data, e1)"
    by (cases "get_latest_indicators w")
  have "e1 = map Fred_Get series_ids"
    using fetch_effects [of w] g by simp
  with gate data g show ?thesis
    by (simp add: send_economic_briefing_def send_telegram_message_def Let_def)
qed

lemma send_economic_briefing_no_data:
  "should_send_briefing w \<Longrightarrow> fst (get_latest_indicators w) = [] \<Longrightarrow>
   send_economic_briefing fl w = (No_Data, map Fred_Get series_ids)"
proof -
  assume gate: "should_send_briefing w" and data: "fst (get_latest_indicators w) = []"
  obtain indicators_data e1 where g: "get_latest_indicators w = (indicators_data, e1)"
    by (cases "get_latest_indicators w")
  have "e1 = map Fred_Get series_ids"
    using fetch_effects [of w] g by simp
  with gate data g show ?thesis
    by (simp add: send_economic_briefing_def)
qed

lemma send_economic_briefing_closed:
  "\<not> should_send_briefing w \<Longrightarrow> send_economic_briefing fl w = (Gate_Closed, [])"
  by (simp add: send_economic_briefing_def)

lemmas render_defs =
  format_economic_briefing_structure critical_line_def important_line_def critical_step_def
  important_step_def is_critical_def is_important_def calculate_change_def format_change_def
  truthy_def py_str_def strptime_Ymd_def is_digit_def digit_val_def pad2_def digit_char_def
  days_in_month_def DAYS_IN_MONTH_def is_leap_def tenths_def Let_def

lemmas fetch_defs =
  get_latest_indicators_closed ECONOMIC_INDICATORS_def snapshot_entry_def get_fred_data_def
  series_ids_def

text \<open>
  C7, as amended. A series whose request failed (a status other than 200, a network
  failure or a timeout) is not in the mapping. The mapping holds exactly the series that
  were answered with status 200 and at least one observation, in table order; so when
  every series either failed or was answered with data, it holds exactly the series that
  did not fail. When the clock gate is open and the mapping is not empty, the cycle
  requests all five series, renders the briefing from the mapping and posts it once.
\<close>

theorem partial_fetch:
  "(request_failed w sid \<longrightarrow> sid \<notin> set (map fst (fst (get_latest_indicators w)))) \<and>
   map fst (fst (get_latest_indicators w)) = filter (answered_with_data w) series_ids \<and>
   ((\<forall>s \<in> set series_ids. request_failed w s \<or> answered_with_data w s) \<longrightarrow>
      map fst (fst (get_latest_indicators w)) =
        filter (\<lambda>s. \<not> request_failed w s) series_ids) \<and>
   (should_send_briefing w \<and> fst (get_latest_indicators w) \<noteq> [] \<longrightarrow>
      send_economic_briefing fl w =
        (Delivery (fst (send_telegram_message w
           (format_economic_briefing fl w (fst (get_latest_indicators w))))),
         map Fred_Get series_ids @
         [Telegram_Post (format_economic_briefing fl w (fst (get_latest_indicators w)))]))"
proof (intro conjI impI)
  show "map fst (fst (get_latest_indicators w)) = filter (answered_with_data w) series_ids"
    by (rule fetched_ids)
next
  assume "request_failed w sid"
  then show "sid \<notin> set (map fst (fst (get_latest_indicators w)))"
    by (simp add: fetched_ids failed_not_answered)
next
  assume a: "\<forall>s \<in> set series_ids. request_failed w s \<or> answered_with_data w s"
  have "filter (answered_with_data w) series_ids = filter (\<lambda>s. \<not> request_failed w s) series_ids"
    using a failed_not_answered [of w] by (intro filter_cong) auto
  then show "map fst (fst (get_latest_indicators w)) =
      filter (\<lambda>s. \<not> request_failed w s) series_ids"
    by (simp add: fetched_ids)
next
  assume "should_send_briefing w \<and> fst (get_latest_indicators w) \<noteq> []"
  then show "send_economic_briefing fl w =
        (Delivery (fst (send_telegram_message w
           (format_economic_briefing fl w (fst (get_latest_indicators w))))),
         map Fred_Get series_ids @
         [Telegram_Post (format_economic_briefing fl w (fst (get_latest_indicators w)))])"
    by (simp add: send_economic_briefing_open)
qed

text \<open>
  Two of the five requests fail: the mapping holds the other three, and the briefing
  posted has their three lines.
\<close>

theorem partial_fetch_witness:
  "filter (request_failed (world_at (at_time 2024 8 1 7 30) two_failures accepted)) series_ids =
     [''CPIAUCSL'', ''GDPC1''] \<and>
   map fst (fst (get_latest_indicators (world_at (at_time 2024 8 1 7 30) two_failures accepted))) =
     [''UNRATE'', ''PAYEMS'', ''RRSFS''] \<and>
   send_economic_briefing tenths (world_at (at_time 2024 8 1 7 30) two_failures accepted) =
     (Delivery True,
      map Fred_Get series_ids @
      [Telegram_Post
        (briefing_head (world_at (at_time 2024 8 1 7 30) two_failures accepted) @
         critical_open @ name_UNRATE @ ''</b>: 4.3% '' @ change_up @ ''0.20 (08/01)'' @
         critical_open @ name_PAYEMS @ ''</b>: 159000'' @ unit_PAYEMS @ '' '' @ change_na @
           '' (08/01)'' @
         important_head @
         important_open @ name_RRSFS @ '': 0.5% '' @ change_flat @ ''0.00'' @
         briefing_tail (world_at (at_time 2024 8 1 7 30) two_failures accepted))])"
proof -
  let ?w = "world_at (at_time 2024 8 1 7 30) two_failures accepted"
  have gate: "should_send_briefing ?w"
    by (simp add: should_send_briefing_def is_business_day_def get_korean_time_def world_at_def
        calendar_defs)
  have ids: "map fst (fst (get_latest_indicators ?w)) = [''UNRATE'', ''PAYEMS'', ''RRSFS'']"
    by (simp add: fetched_ids series_ids_def ECONOMIC_INDICATORS_def answered_with_data_def
        sample_defs)
  then have data: "fst (get_latest_indicators ?w) \<noteq> []"
    by auto
  have failed: "filter (request_failed ?w) series_ids = [''CPIAUCSL'', ''GDPC1'']"
    by (simp add: series_ids_def ECONOMIC_INDICATORS_def request_failed_def sample_defs)
  have msg: "format_economic_briefing tenths ?w (fst (get_latest_indicators ?w)) =
      briefing_head ?w @
      critical_open @ name_UNRATE @ ''</b>: 4.3% '' @ change_up @ ''0.20 (08/01)'' @
      critical_open @ name_PAYEMS @ ''</b>: 159000'' @ unit_PAYEMS @ '' '' @ change_na @
        '' (08/01)'' @
      important_head @
      important_open @ name_RRSFS @ '': 0.5% '' @ change_flat @ ''0.00'' @
      briefing_tail ?w"
    by (simp add: fetch_defs sample_defs render_defs)
  have ok: "fst (send_telegram_message ?w (format_economic_briefing tenths ?w
      (fst (get_latest_indicators ?w))))"
    by (simp add: send_telegram_message_def world_at_def accepted_def)
  from partial_fetch [of ?w "''CPIAUCSL''" tenths] gate data
  have "send_economic_briefing tenths ?w =
      (Delivery (fst (send_telegram_message ?w
         (format_economic_briefing tenths ?w (fst (get_latest_indicators ?w))))),
       map Fred_Get series_ids @
       [Telegram_Post (format_economic_briefing tenths ?w (fst (get_latest_indicators ?w)))])"
    by blast
  with ok msg ids failed show ?thesis
    by simp
qed

text \<open>
  C7 as stated fails: the request for UNRATE succeeds with status 200 and an empty list of
  observations, and UNRATE is not in the mapping. Two of the five requests fail here and
  the mapping holds two series, not the other three.
\<close>

theorem successful_series_omitted_counterexample:
  "\<not> request_failed (world_at (at_time 2024 8 1 7 30) empty_answer accepted) ''UNRATE'' \<and>
   ''UNRATE'' \<in> set series_ids \<and>
   filter (request_failed (world_at (at_time 2024 8 1 7 30) empty_answer accepted)) series_ids =
     [''PAYEMS'', ''RRSFS''] \<and>
   map fst (fst (get_latest_indicators (world_at (at_time 2024 8 1 7 30) empty_answer accepted))) =
     [''CPIAUCSL'', ''GDPC1'']"
  by (simp add: fetched_ids series_ids_def ECONOMIC_INDICATORS_def answered_with_data_def
      request_failed_def sample_defs)

text \<open>
  C8. When the requests for all series fail, \<open>get_latest_indicators\<close> returns the
  empty mapping; a cycle that passed the clock gate leaves at the empty mapping after its
  five requests, before the briefing is formatted, and no cycle posts a message.
\<close>

theorem all_series_fail:
  "(\<forall>sid \<in> set series_ids. request_failed w sid) \<Longrightarrow>
   fst (get_latest_indicators w) = [] \<and>
   send_economic_briefing fl w =
     (if should_send_briefing w then (No_Data, map Fred_Get series_ids) else (Gate_Closed, [])) \<and>
   (\<forall>message. Telegram_Post message \<notin> set (snd (send_economic_briefing fl w)))"
proof -
  assume a: "\<forall>sid \<in> set series_ids. request_failed w sid"
  have "filter (answered_with_data w) series_ids = []"
    using a failed_not_answered [of w] by (auto simp: filter_empty_conv)
  then have "map fst (fst (get_latest_indicators w)) = []"
    by (simp add: fetched_ids)
  then have empty: "fst (get_latest_indicators w) = []"
    by simp
  have run: "send_economic_briefing fl w =
     (if should_send_briefing w then (No_Data, map Fred_Get series_ids) else (Gate_Closed, []))"
    using empty by (simp add: send_economic_briefing_no_data send_economic_briefing_closed)
  have "\<forall>message. Telegram_Post message \<notin> set (snd (send_economic_briefing fl w))"
    by (auto simp: run)
  with empty run show ?thesis
    by blast
qed

text \<open>All five requests fail on a Thursday at 07:30.\<close>

theorem all_series_fail_witness:
  "list_all (request_failed (world_at (at_time 2024 8 1 7 30) all_fail accepted)) series_ids \<and>
   should_send_briefing (world_at (at_time 2024 8 1 7 30) all_fail accepted) \<and>
   fst (get_latest_indicators (world_at (at_time 2024 8 1 7 30) all_fail accepted)) = [] \<and>
   send_economic_briefing tenths (world_at (at_time 2024 8 1 7 30) all_fail accepted) =
     (No_Data,
      [Fred_Get ''UNRATE'', Fred_Get ''CPIAUCSL'', Fred_Get ''PAYEMS'', Fred_Get ''GDPC1'',
       Fred_Get ''RRSFS''])"
proof -
  let ?w = "world_at (at_time 2024 8 1 7 30) all_fail accepted"
  have f: "\<forall>sid \<in> set series_ids. request_failed ?w sid"
    by (simp add: series_ids_def ECONOMIC_INDICATORS_def request_failed_def sample_defs
        all_fail_def)
  have gate: "should_send_briefing ?w"
    by (simp add: should_send_briefing_def is_business_day_def get_korean_time_def world_at_def
        calendar_defs)
  from all_series_fail [OF f, of tenths] gate f show ?thesis
    by (simp add: series_ids_def ECONOMIC_INDICATORS_def list_all_iff)
qed

lemma run_pending_closed:
  "run_pending fl ws = concat (map (\<lambda>w. snd (send_economic_briefing fl w)) ws)"
  by (induction ws) simp_all

text \<open>
  C9. \<open>send_telegram_message\<close> returns true exactly when the answer has status 200;
  for any other status and for a network exception it returns false. It issues one POST
  and no other request. A cycle that reaches the delivery ends with the result of that
  one call. The scheduler loop runs every due job of every wake, in order, whatever
  earlier deliveries returned and however many wakes without a due job lie between: its
  requests are those of the cycles of all due jobs, one cycle after the other.
\<close>

theorem delivery_result:
  "fst (send_telegram_message w message) =
     (\<exists>body. telegram_reply w message = Http_Response 200 body) \<and>
   snd (send_telegram_message w message) = [Telegram_Post message] \<and>
   (should_send_briefing w \<and> fst (get_latest_indicators w) \<noteq> [] \<longrightarrow>
      send_economic_briefing fl w =
        (Delivery (fst (send_telegram_message w
           (format_economic_briefing fl w (fst (get_latest_indicators w))))),
         map Fred_Get series_ids @
         [Telegram_Post (format_economic_briefing fl w (fst (get_latest_indicators w)))])) \<and>
   scheduler_loop fl wakes =
     concat (map (\<lambda>w. snd (send_economic_briefing fl w)) (concat wakes))"
proof (intro conjI)
  show "fst (send_telegram_message w message) =
     (\<exists>body. telegram_reply w message = Http_Response 200 body)"
    by (auto simp: send_telegram_message_def split: http_result.splits)
  show "snd (send_telegram_message w message) = [Telegram_Post message]"
    by (rule send_telegram_message_effects)
  show "should_send_briefing w \<and> fst (get_latest_indicators w) \<noteq> [] \<longrightarrow>
      send_economic_briefing fl w =
        (Delivery (fst (send_telegram_message w
           (format_economic_briefing fl w (fst (get_latest_indicators w))))),
         map Fred_Get series_ids @
         [Telegram_Post (format_economic_briefing fl w (fst (get_latest_indicators w)))])"
    by (simp add: send_economic_briefing_open)
  show "scheduler_loop fl wakes =
     concat (map (\<lambda>w. snd (send_economic_briefing fl w)) (concat wakes))"
    by (induction wakes) (simp_all add: run_pending_closed)
qed

text \<open>
  The delivery of Thursday 07:30 is refused with status 400. Two wakes without a due job
  follow, then the hourly job at 08:00, which leaves at the clock gate, then another wake
  without a job; the cycle of Friday 07:30 runs and posts its briefing.
\<close>

theorem delivery_result_witness:
  "\<not> fst (send_telegram_message (world_at (at_time 2024 8 1 7 30) two_failures refused) ''text'') \<and>
   fst (send_telegram_message (world_at (at_time 2024 8 2 7 30) two_failures accepted) ''text'') \<and>
   send_economic_briefing tenths (world_at (at_time 2024 8 1 7 30) two_failures refused) =
     (Delivery False,
      map Fred_Get series_ids @
      [Telegram_Post (format_economic_briefing tenths
        (world_at (at_time 2024 8 1 7 30) two_failures refused)
        (fst (get_latest_indicators (world_at (at_time 2024 8 1 7 30) two_failures refused))))]) \<and>
   scheduler_loop tenths
     [[world_at (at_time 2024 8 1 7 30) two_failures refused],
      [], [],
      [world_at (at_time 2024 8 1 8 0) two_failures accepted],
      [],
      [world_at (at_time 2024 8 2 7 30) two_failures accepted]] =
     map Fred_Get series_ids @
     [Telegram_Post (format_economic_briefing tenths
        (world_at (at_time 2024 8 1 7 30) two_failures refused)
        (fst (get_latest_indicators (world_at (at_time 2024 8 1 7 30) two_failures refused))))] @
     map Fred_Get series_ids @
     [Telegram_Post (format_economic_briefing tenths
        (world_at (at_time 2024 8 2 7 30) two_failures accepted)
        (fst (get_latest_indicators (world_at (at_time 2024 8 2 7 30) two_failures accepted))))]"
proof -
  let ?w1 = "world_at (at_time 2024 8 1 7 30) two_failures refused"
  let ?w2 = "world_at (at_time 2024 8 2 7 30) two_failures accepted"
  let ?w3 = "world_at (at_time 2024 8 1 8 0) two_failures accepted"
  have gate: "should_send_briefing ?w1" "should_send_briefing ?w2" "\<not> should_send_briefing ?w3"
    by (simp_all add: should_send_briefing_def is_business_day_def get_korean_time_def
        world_at_def calendar_defs)
  have "map fst (fst (get_latest_indicators ?w1)) = [''UNRATE'', ''PAYEMS'', ''RRSFS'']"
    "map fst (fst (get_latest_indicators ?w2)) = [''UNRATE'', ''PAYEMS'', ''RRSFS'']"
    by (simp_all add: fetched_ids series_ids_def ECONOMIC_INDICATORS_def answered_with_data_def
        sample_defs)
  then have data: "fst (get_latest_indicators ?w1) \<noteq> []" "fst (get_latest_indicators ?w2) \<noteq> []"
    by auto
  have reply: "telegram_reply ?w1 = refused" "telegram_reply ?w2 = accepted"
    by (simp_all add: world_at_def)
  have idle: "send_economic_briefing tenths ?w3 = (Gate_Closed, [])"
    using gate by (simp add: send_economic_briefing_closed)
  have sent: "\<not> fst (send_telegram_message ?w1 m)" "fst (send_telegram_message ?w2 m)" for m
    by (simp_all add: send_telegram_message_def reply refused_def accepted_def)
  from delivery_result [of ?w1 "''text''" tenths "[[?w1], [], [], [?w3], [], [?w2]]"]
    delivery_result [of ?w2 "''text''" tenths "[]"] gate data
  show ?thesis
    by (simp add: sent idle)
qed

text \<open>
  C1 does not hold of the code. With the three secrets set, on Thursday 1 August 2024 at
  12:00 and three series answered with data, the start-up block posts the start-up message
  and nothing else: the call of \<open>send_economic_briefing\<close> that follows leaves at
  its own clock gate, without a request to the statistics provider and without a briefing.
\<close>

theorem startup_cycle_is_gated:
  "truthy (FRED_API_KEY (world_at (at_time 2024 8 1 12 0) two_failures accepted)) \<and>
   truthy (BOT_TOKEN (world_at (at_time 2024 8 1 12 0) two_failures accepted)) \<and>
   truthy (CHAT_ID (world_at (at_time 2024 8 1 12 0) two_failures accepted)) \<and>
   weekday (now (world_at (at_time 2024 8 1 12 0) two_failures accepted)) = 3 \<and>
   map fst (fst (get_latest_indicators (world_at (at_time 2024 8 1 12 0) two_failures accepted))) =
     [''UNRATE'', ''PAYEMS'', ''RRSFS''] \<and>
   send_economic_briefing tenths (world_at (at_time 2024 8 1 12 0) two_failures accepted) =
     (Gate_Closed, []) \<and>
   startup tenths (world_at (at_time 2024 8 1 12 0) two_failures accepted) =
     [Telegram_Post (startup_message (world_at (at_time 2024 8 1 12 0) two_failures accepted))]"
proof -
  let ?w = "world_at (at_time 2024 8 1 12 0) two_failures accepted"
  have gate: "\<not> should_send_briefing ?w"
    by (simp add: should_send_briefing_def is_business_day_def get_korean_time_def world_at_def
        calendar_defs)
  have ids: "map fst (fst (get_latest_indicators ?w)) = [''UNRATE'', ''PAYEMS'', ''RRSFS'']"
    by (simp add: fetched_ids series_ids_def ECONOMIC_INDICATORS_def answered_with_data_def
        sample_defs)
  have wd: "weekday (now ?w) = 3"
    by (simp add: world_at_def calendar_defs)
  have secrets: "truthy (FRED_API_KEY ?w)" "truthy (BOT_TOKEN ?w)" "truthy (CHAT_ID ?w)"
    by (simp_all add: world_at_def truthy_def)
  have cycle: "send_economic_briefing tenths ?w = (Gate_Closed, [])"
    using gate by (simp add: send_economic_briefing_closed)
  have "startup tenths ?w = [Telegram_Post (startup_message ?w)]"
    using secrets by (simp add: startup_def send_startup_message_def cycle
        send_telegram_message_effects)
  with secrets wd ids cycle show ?thesis
    by simp
qed

subsection \<open>Lines of the briefing\<close>

lemma strptime_Ymd_Nil: "strptime_Ymd [] = None"
  by (simp add: strptime_Ymd_def)

lemma critical_line_missing: "latest_value (snd item) = Some ''.'' \<Longrightarrow> critical_line fl item = []"
  by (simp add: critical_line_def critical_step_def Let_def)

lemma important_line_missing: "latest_value (snd item) = Some ''.'' \<Longrightarrow> important_line fl item = []"
  by (simp add: important_line_def important_step_def Let_def)

lemma concat_map_filter_empty:
  "(\<And>x. \<not> Q x \<Longrightarrow> f x = []) \<Longrightarrow>
   concat (map f (filter P xs)) = concat (map f (filter (\<lambda>x. P x \<and> Q x) xs))"
  by (induction xs) auto

lemmas line_defs =
  critical_line_def important_line_def critical_step_def important_step_def is_critical_def
  is_important_def calculate_change_def format_change_def truthy_def py_str_def
  strptime_Ymd_def is_digit_def digit_val_def pad2_def digit_char_def days_in_month_def
  DAYS_IN_MONTH_def is_leap_def tenths_def Let_def snap_def

text \<open>
  C5. A snapshot whose latest value is the missing-value token \<open>''.''\<close> leaves the
  message as it is in the loop of the critical group and in the loop of the important
  group. So the briefing made of any mapping has, in each group, lines only for the
  snapshots whose latest value is not the token.
\<close>

theorem missing_value_skipped:
  "(latest_value (snd item) = Some ''.'' \<longrightarrow>
      critical_step fl message item = message \<and> important_step fl message item = message) \<and>
   format_economic_briefing fl w indicators_data =
     briefing_head w @
     concat (map (critical_line fl)
       (filter (\<lambda>i. is_critical i \<and> latest_value (snd i) \<noteq> Some ''.'') indicators_data)) @
     (if filter is_important indicators_data = [] then []
      else important_head @
        concat (map (important_line fl)
          (filter (\<lambda>i. is_important i \<and> latest_value (snd i) \<noteq> Some ''.'') indicators_data))) @
     briefing_tail w"
proof -
  have c: "concat (map (critical_line fl) (filter is_critical indicators_data)) =
      concat (map (critical_line fl)
        (filter (\<lambda>i. is_critical i \<and> latest_value (snd i) \<noteq> Some ''.'') indicators_data))"
    by (rule concat_map_filter_empty) (simp add: critical_line_missing)
  have i: "concat (map (important_line fl) (filter is_important indicators_data)) =
      concat (map (important_line fl)
        (filter (\<lambda>i. is_important i \<and> latest_value (snd i) \<noteq> Some ''.'') indicators_data))"
    by (rule concat_map_filter_empty) (simp add: important_line_missing)
  have s: "latest_value (snd item) = Some ''.'' \<longrightarrow>
      critical_step fl message item = message \<and> important_step fl message item = message"
    by (simp add: critical_step_def important_step_def Let_def)
  show ?thesis
    using s by (simp add: format_economic_briefing_structure c i)
qed

text \<open>
  CPIAUCSL and RRSFS are answered with the token as their latest value: the briefing has a
  line for UNRATE and a line for PAYEMS, none for CPIAUCSL and none for RRSFS.
\<close>

theorem missing_value_skipped_witness:
  "map (\<lambda>i. (fst i, latest_value (snd i)))
     (fst (get_latest_indicators (world_at (at_time 2024 8 1 7 30) missing_values accepted))) =
     [(''UNRATE'', Some ''4.3''), (''CPIAUCSL'', Some ''.''), (''PAYEMS'', Some ''159000''),
      (''RRSFS'', Some ''.'')] \<and>
   format_economic_briefing tenths (world_at (at_time 2024 8 1 7 30) missing_values accepted)
     (fst (get_latest_indicators (world_at (at_time 2024 8 1 7 30) missing_values accepted))) =
     briefing_head (world_at (at_time 2024 8 1 7 30) missing_values accepted) @
     critical_open @ name_UNRATE @ ''</b>: 4.3% '' @ change_up @ ''0.20 (08/01)'' @
     critical_open @ name_PAYEMS @ ''</b>: 159000'' @ unit_PAYEMS @ '' '' @ change_na @
     important_head @
     briefing_tail (world_at (at_time 2024 8 1 7 30) missing_values accepted)"
  using missing_value_skipped
    [of "snap 1 ''.'' ''2024-08-01''" tenths "[]"
      "world_at (at_time 2024 8 1 7 30) missing_values accepted"
      "fst (get_latest_indicators (world_at (at_time 2024 8 1 7 30) missing_values accepted))"]
  by (simp add: fetch_defs sample_defs critical_line_def important_line_def critical_step_def
      important_step_def is_critical_def is_important_def calculate_change_def format_change_def
      truthy_def py_str_def strptime_Ymd_def is_digit_def digit_val_def pad2_def digit_char_def
      days_in_month_def DAYS_IN_MONTH_def is_leap_def tenths_def Let_def snap_def)

text \<open>
  C4, as amended. For a snapshot that is rendered (its latest value is present and is not
  the missing-value token): its line in the critical group ends with the latest date as
  \<open>'' (MM/DD)''\<close> when the date string parses as a date; when the date is absent or
  does not parse, the line is the same without that suffix; its line in the important
  group never has a date.
\<close>

theorem critical_line_date_suffix:
  "truthy (latest_value d) \<and> latest_value d \<noteq> Some ''.'' \<longrightarrow>
     (\<forall>s date_obj. latest_date d = Some s \<and> strptime_Ymd s = Some date_obj \<longrightarrow>
        critical_line fl (sid, d) =
          critical_open @ name (info d) @ ''</b>: '' @ py_str (latest_value d) @ unit (info d) @
          '' '' @ format_change fl (calculate_change fl (latest_value d) (previous_value d)) @
          '' ('' @ pad2 (month date_obj) @ ''/'' @ pad2 (day date_obj) @ '')'') \<and>
     (latest_date d = None \<or> (\<exists>s. latest_date d = Some s \<and> strptime_Ymd s = None) \<longrightarrow>
        critical_line fl (sid, d) =
          critical_open @ name (info d) @ ''</b>: '' @ py_str (latest_value d) @ unit (info d) @
          '' '' @ format_change fl (calculate_change fl (latest_value d) (previous_value d))) \<and>
     important_line fl (sid, d) =
       important_open @ name (info d) @ '': '' @ py_str (latest_value d) @ unit (info d) @
       '' '' @ format_change fl (calculate_change fl (latest_value d) (previous_value d))"
proof (intro impI conjI allI)
  fix s date_obj
  assume r: "truthy (latest_value d) \<and> latest_value d \<noteq> Some ''.''"
    and p: "latest_date d = Some s \<and> strptime_Ymd s = Some date_obj"
  then have "s \<noteq> []"
    using strptime_Ymd_Nil by auto
  with r p show "critical_line fl (sid, d) =
          critical_open @ name (info d) @ ''</b>: '' @ py_str (latest_value d) @ unit (info d) @
          '' '' @ format_change fl (calculate_change fl (latest_value d) (previous_value d)) @
          '' ('' @ pad2 (month date_obj) @ ''/'' @ pad2 (day date_obj) @ '')''"
    by (simp add: critical_line_def critical_step_def Let_def truthy_def py_str_def)
next
  assume r: "truthy (latest_value d) \<and> latest_value d \<noteq> Some ''.''"
    and p: "latest_date d = None \<or> (\<exists>s. latest_date d = Some s \<and> strptime_Ymd s = None)"
  then show "critical_line fl (sid, d) =
          critical_open @ name (info d) @ ''</b>: '' @ py_str (latest_value d) @ unit (info d) @
          '' '' @ format_change fl (calculate_change fl (latest_value d) (previous_value d))"
    by (auto simp: critical_line_def critical_step_def Let_def truthy_def py_str_def)
next
  assume r: "truthy (latest_value d) \<and> latest_value d \<noteq> Some ''.''"
  then show "important_line fl (sid, d) =
       important_open @ name (info d) @ '': '' @ py_str (latest_value d) @ unit (info d) @
       '' '' @ format_change fl (calculate_change fl (latest_value d) (previous_value d))"
    by (simp add: important_line_def important_step_def Let_def)
qed

text \<open>
  The dates \<open>2024-08-01\<close> and \<open>2024-8-1\<close> give the suffix \<open>(08/01)\<close>; 30
  February and a date in another format give none, and the rest of the line is there.
\<close>

theorem critical_line_date_suffix_witness:
  "critical_line tenths (snap 0 ''4.3'' ''2024-08-01'') =
     critical_open @ name_UNRATE @ ''</b>: 4.3% '' @ change_na @ '' (08/01)'' \<and>
   critical_line tenths (snap 0 ''4.3'' ''2024-8-1'') =
     critical_open @ name_UNRATE @ ''</b>: 4.3% '' @ change_na @ '' (08/01)'' \<and>
   critical_line tenths (snap 0 ''4.3'' ''2024-02-30'') =
     critical_open @ name_UNRATE @ ''</b>: 4.3% '' @ change_na \<and>
   critical_line tenths (snap 0 ''4.3'' ''01/08/2024'') =
     critical_open @ name_UNRATE @ ''</b>: 4.3% '' @ change_na \<and>
   important_line tenths (snap 3 ''2.5'' ''2024-04-01'') =
     important_open @ ''GDP: 2.5% '' @ change_na"
  using
    critical_line_date_suffix [of "snd (snap 0 ''4.3'' ''2024-08-01'')" tenths "''UNRATE''"]
    critical_line_date_suffix [of "snd (snap 0 ''4.3'' ''2024-02-30'')" tenths "''UNRATE''"]
  by (simp add: line_defs ECONOMIC_INDICATORS_def)

text \<open>
  C4 as stated fails for the important group: the latest date of the GDP snapshot parses,
  and its line, alone in the briefing, has no date.
\<close>

theorem important_line_date_counterexample:
  "is_important (snap 3 ''2.5'' ''2024-04-01'') \<and>
   latest_date (snd (snap 3 ''2.5'' ''2024-04-01'')) = Some ''2024-04-01'' \<and>
   strptime_Ymd ''2024-04-01'' = Some (at_time 2024 4 1 0 0) \<and>
   important_line tenths (snap 3 ''2.5'' ''2024-04-01'') =
     important_open @ ''GDP: 2.5% '' @ change_na \<and>
   \<not> suffix '' (04/01)'' (important_line tenths (snap 3 ''2.5'' ''2024-04-01'')) \<and>
   format_economic_briefing tenths (world_at (at_time 2024 8 1 7 30) two_failures accepted)
     [snap 3 ''2.5'' ''2024-04-01''] =
     briefing_head (world_at (at_time 2024 8 1 7 30) two_failures accepted) @
     important_head @ important_open @ ''GDP: 2.5% '' @ change_na @
     briefing_tail (world_at (at_time 2024 8 1 7 30) two_failures accepted)"
  by (simp add: line_defs ECONOMIC_INDICATORS_def format_economic_briefing_structure at_time_def
      suffix_to_prefix important_open_def change_na_def)

lemma subseq_entries:
  "subseq (map fst (List.map_filter (snapshot_entry w) rows)) (map fst rows)"
  by (simp add: map_fst_snapshot_entries)

text \<open>
  C6, as amended. For every mapping the briefing is its head, the lines of the critical
  snapshots, then (if there is an important snapshot) the heading and the lines of the
  important snapshots, then its tail; within a group the lines are in the order of the
  mapping. In a mapping returned by \<open>get_latest_indicators\<close> each group is in the
  order of the indicator table.
\<close>

theorem tiers_in_order:
  "format_economic_briefing fl w indicators_data =
     briefing_head w @
     concat (map (critical_line fl) (filter is_critical indicators_data)) @
     (if filter is_important indicators_data = [] then []
      else important_head @
        concat (map (important_line fl) (filter is_important indicators_data))) @
     briefing_tail w \<and>
   subseq (map fst (filter is_critical (fst (get_latest_indicators w)))) series_ids \<and>
   subseq (map fst (filter is_important (fst (get_latest_indicators w)))) series_ids"
proof -
  have all: "subseq (map fst (fst (get_latest_indicators w))) series_ids"
    by (simp add: fetched_ids)
  have "subseq (map fst (filter P (fst (get_latest_indicators w)))) series_ids" for P
  proof -
    have "subseq (filter P (fst (get_latest_indicators w))) (fst (get_latest_indicators w))"
      by simp
    then have "subseq (map fst (filter P (fst (get_latest_indicators w))))
        (map fst (fst (get_latest_indicators w)))"
      by (rule subseq_map)
    then show ?thesis
      using all by (rule subseq_order.order_trans)
  qed
  then show ?thesis
    by (simp add: format_economic_briefing_structure)
qed

text \<open>
  C6 as stated fails for a mapping that is not in table order: given PAYEMS before UNRATE,
  the briefing has the line of PAYEMS before the line of UNRATE, while the table has
  UNRATE first.
\<close>

theorem mapping_order_counterexample:
  "map fst (filter is_critical [snap 2 ''159000'' ''2024-08-01'', snap 0 ''4.3'' ''2024-08-01'']) =
     [''PAYEMS'', ''UNRATE''] \<and>
   \<not> subseq [''PAYEMS'', ''UNRATE''] series_ids \<and>
   format_economic_briefing tenths (world_at (at_time 2024 8 1 7 30) two_failures accepted)
     [snap 2 ''159000'' ''2024-08-01'', snap 0 ''4.3'' ''2024-08-01''] =
     briefing_head (world_at (at_time 2024 8 1 7 30) two_failures accepted) @
     critical_open @ name_PAYEMS @ ''</b>: 159000'' @ unit_PAYEMS @ '' '' @ change_na @
       '' (08/01)'' @
     critical_open @ name_UNRATE @ ''</b>: 4.3% '' @ change_na @ '' (08/01)'' @
     briefing_tail (world_at (at_time 2024 8 1 7 30) two_failures accepted)"
  by (simp add: line_defs ECONOMIC_INDICATORS_def format_economic_briefing_structure
      series_ids_def)

subsection \<open>Change calculator\<close>

text \<open>
  What \<open>calculate_change\<close> does is fixed up to the float operations: it is undetermined
  when a side is absent, empty, the missing-value token or not read by
  \<open>float_of_string\<close>, and otherwise the float difference of the two numbers read.
\<close>

lemma calculate_change_undetermined:
  "\<not> truthy current \<or> \<not> truthy previous \<or> current = Some ''.'' \<or> previous = Some ''.'' \<or>
   float_of_string fl (py_str current) = None \<or> float_of_string fl (py_str previous) = None \<Longrightarrow>
   calculate_change fl current previous = None"
  by (auto simp: calculate_change_def split: option.splits)

lemma calculate_change_difference:
  "truthy (Some c) \<Longrightarrow> truthy (Some p) \<Longrightarrow> c \<noteq> ''.'' \<Longrightarrow> p \<noteq> ''.'' \<Longrightarrow>
   float_of_string fl c = Some x \<Longrightarrow> float_of_string fl p = Some y \<Longrightarrow>
   calculate_change fl (Some c) (Some p) = Some (float_sub fl x y)"
  by (simp add: calculate_change_def py_str_def)

lemma five_not_dvd_power_two: "\<not> (5::int) dvd 2 ^ k"
proof
  assume "(5::int) dvd 2 ^ k"
  moreover have "coprime (5::int) (2 ^ k)"
    by simp
  ultimately have "is_unit (5::int)"
    by (rule coprime_common_divisor [OF _ dvd_refl, rotated])
  then show False by simp
qed

lemma dyadic_not_fifth: "dyadic x \<Longrightarrow> x \<noteq> 2 / 10"
proof
  assume "dyadic x" and x: "x = 2 / 10"
  then obtain m :: int and k :: nat where "x = of_int m / 2 ^ k"
    by (auto simp: dyadic_def)
  with x have "(of_int m :: real) * 5 = 2 ^ k"
    by (simp add: field_simps)
  then have "(of_int (m * 5) :: real) = of_int (2 ^ k)"
    by simp
  then have "m * 5 = 2 ^ k"
    by (simp only: of_int_eq_iff)
  then have "(5::int) dvd 2 ^ k"
    by (metis dvd_triv_right)
  then show False
    using five_not_dvd_power_two by blast
qed

lemma dyadic_dyadic_value: "dyadic (dyadic_value f)"
  by (auto simp: dyadic_def dyadic_value_def)

text \<open>
  C2, as amended. \<open>calculate_change\<close> is undetermined when a side is absent, empty,
  the missing-value token or not read as a number. For two strings that are read as
  numbers it returns the float difference of the two floats read. Floats are binary
  fractions, so this is not always the difference of the two decimal numbers written:
  whatever the float operations, under a valuation of the floats by binary fractions no
  result has the value 0.2.
\<close>

theorem calculate_change_float_difference:
  "(current = None \<or> current = Some [] \<or> current = Some ''.'' \<or>
    previous = None \<or> previous = Some [] \<or> previous = Some ''.'' \<or>
    (\<exists>s. current = Some s \<and> float_of_string fl s = None) \<or>
    (\<exists>s. previous = Some s \<and> float_of_string fl s = None) \<longrightarrow>
      calculate_change fl current previous = None) \<and>
   (c \<noteq> [] \<and> c \<noteq> ''.'' \<and> p \<noteq> [] \<and> p \<noteq> ''.'' \<and>
    float_of_string fl c = Some x \<and> float_of_string fl p = Some y \<longrightarrow>
      calculate_change fl (Some c) (Some p) = Some (float_sub fl x y)) \<and>
   ((\<forall>f. dyadic (v f)) \<longrightarrow>
      (\<forall>r. calculate_change fl current previous = Some r \<longrightarrow> v r \<noteq> 2 / 10))"
proof (intro conjI impI allI)
  assume "current = None \<or> current = Some [] \<or> current = Some ''.'' \<or>
    previous = None \<or> previous = Some [] \<or> previous = Some ''.'' \<or>
    (\<exists>s. current = Some s \<and> float_of_string fl s = None) \<or>
    (\<exists>s. previous = Some s \<and> float_of_string fl s = None)"
  then show "calculate_change fl current previous = None"
    by (auto simp: calculate_change_def truthy_def py_str_def split: option.splits)
next
  assume "c \<noteq> [] \<and> c \<noteq> ''.'' \<and> p \<noteq> [] \<and> p \<noteq> ''.'' \<and>
    float_of_string fl c = Some x \<and> float_of_string fl p = Some y"
  then show "calculate_change fl (Some c) (Some p) = Some (float_sub fl x y)"
    by (simp add: calculate_change_def truthy_def py_str_def)
next
  fix r
  assume "\<forall>f. dyadic (v f)"
  then have "dyadic (v r)" by blast
  then show "v r \<noteq> 2 / 10"
    by (rule dyadic_not_fifth)
qed

text \<open>
  The token, an absent side and a string that is not a number give no change; for 4.3
  and 4.1 the change is the difference of the two binary64 numbers, which is not 0.2.
\<close>

theorem calculate_change_float_difference_witness:
  "calculate_change binary64_sample (Some ''.'') (Some ''4.1'') = None \<and>
   calculate_change binary64_sample (Some ''4.3'') None = None \<and>
   calculate_change binary64_sample (Some ''4.3'') (Some ''n/a'') = None \<and>
   calculate_change binary64_sample (Some ''4.3'') (Some ''4.1'') =
     Some (dyadic_sub (4841369599423283, 50) (2308094809027379, 49)) \<and>
   dyadic_value (dyadic_sub (4841369599423283, 50) (2308094809027379, 49)) \<noteq> 2 / 10"
proof -
  have d: "\<forall>f. dyadic (dyadic_value f)"
    by (simp add: dyadic_dyadic_value)
  have p: "float_of_string binary64_sample ''4.3'' = Some (4841369599423283, 50)"
    "float_of_string binary64_sample ''4.1'' = Some (2308094809027379, 49)"
    "float_of_string binary64_sample ''n/a'' = None"
    "float_sub binary64_sample = dyadic_sub"
    by (simp_all add: binary64_sample_def)
  have n1: "calculate_change binary64_sample (Some ''.'') (Some ''4.1'') = None"
    using calculate_change_float_difference
      [of "Some ''.''" "Some ''4.1''" binary64_sample "''4.3''" "''4.1''"
        "(4841369599423283, 50)" "(2308094809027379, 49)" dyadic_value]
    by simp
  have n2: "calculate_change binary64_sample (Some ''4.3'') None = None"
    using calculate_change_float_difference
      [of "Some ''4.3''" None binary64_sample "''4.3''" "''4.1''"
        "(4841369599423283, 50)" "(2308094809027379, 49)" dyadic_value]
    by simp
  have n3: "calculate_change binary64_sample (Some ''4.3'') (Some ''n/a'') = None"
    using calculate_change_float_difference
      [of "Some ''4.3''" "Some ''n/a''" binary64_sample "''4.3''" "''4.1''"
        "(4841369599423283, 50)" "(2308094809027379, 49)" dyadic_value] p
    by simp
  have s: "calculate_change binary64_sample (Some ''4.3'') (Some ''4.1'') =
      Some (dyadic_sub (4841369599423283, 50) (2308094809027379, 49))"
    using calculate_change_float_difference
      [of "Some ''4.3''" "Some ''4.1''" binary64_sample "''4.3''" "''4.1''"
        "(4841369599423283, 50)" "(2308094809027379, 49)" dyadic_value] p
    by simp
  have "dyadic_value (dyadic_sub (4841369599423283, 50) (2308094809027379, 49)) \<noteq> 2 / 10"
    using calculate_change_float_difference
      [of "Some ''4.3''" "Some ''4.1''" binary64_sample "''4.3''" "''4.1''"
        "(4841369599423283, 50)" "(2308094809027379, 49)" dyadic_value] d s
    by blast
  with n1 n2 n3 s show ?thesis
    by blast
qed

text \<open>
  C2 as stated fails on its own example: for \<open>''4.3''\<close> and \<open>''4.1''\<close> the code
  returns \<open>225179981368525 / 2 ^ 50\<close>, printed by Python as 0.20000000000000018, which
  is above 0.2 by \<open>1 / (5 * 2 ^ 50)\<close>; and no float operations whose floats are binary
  fractions return a float of value 0.2 there.
\<close>

theorem calculate_change_example_counterexample:
  "calculate_change binary64_sample (Some ''4.3'') (Some ''4.1'') =
     Some (225179981368525, 50) \<and>
   dyadic_value (225179981368525, 50) = 2 / 10 + 1 / 2 ^ 50 / 5 \<and>
   dyadic_value (225179981368525, 50) \<noteq> 2 / 10 \<and>
   \<not> (\<exists>(fl :: 'f float_ops) (v :: 'f \<Rightarrow> real) r.
        (\<forall>f. dyadic (v f)) \<and>
        calculate_change fl (Some ''4.3'') (Some ''4.1'') = Some r \<and> v r = 2 / 10)"
proof -
  have "calculate_change binary64_sample (Some ''4.3'') (Some ''4.1'') =
     Some (225179981368525, 50)"
    by (simp add: calculate_change_def truthy_def py_str_def binary64_sample_def dyadic_sub_def)
  moreover have "dyadic_value (225179981368525, 50) = 2 / 10 + 1 / 2 ^ 50 / 5"
    by (simp add: dyadic_value_def)
  moreover have "dyadic_value (225179981368525, 50) \<noteq> 2 / 10"
    by (simp add: dyadic_value_def)
  moreover have "\<not> (\<exists>(fl :: 'f float_ops) (v :: 'f \<Rightarrow> real) r.
        (\<forall>f. dyadic (v f)) \<and>
        calculate_change fl (Some ''4.3'') (Some ''4.1'') = Some r \<and> v r = 2 / 10)"
    using dyadic_not_fifth by blast
  ultimately show ?thesis by blast
qed

end
